theory Spec2Isabelle
  imports Complex_Main "HOL-Library.Word"
begin

section \<open>Strings and bytes of the host language\<close>

text \<open>
  A TypeScript string is a sequence of UTF-16 code units and \<open>.length\<close> counts code
  units, so a string is a list of 16-bit words. A literal of the source that is plain
  ASCII is written \<open>js ''...''\<close>.
\<close>

type_synonym jschar = "16 word"
type_synonym jsstring = "jschar list"
type_synonym byte = "8 word"

definition js :: "string \<Rightarrow> jsstring" where
  "js s = map of_char s"

definition chr_plus :: jschar where "chr_plus = of_char CHR ''+''"
definition chr_slash :: jschar where "chr_slash = of_char CHR ''/''"
definition chr_eq :: jschar where "chr_eq = of_char CHR ''=''"
definition chr_minus :: jschar where "chr_minus = of_char CHR ''-''"
definition chr_underscore :: jschar where "chr_underscore = of_char CHR ''_''"
definition chr_comma :: jschar where "chr_comma = of_char CHR '',''"

text \<open>
  \<open>s.replace(/c/g, r)\<close> for a pattern that is one literal character: every occurrence
  of \<open>c\<close> is replaced by the string \<open>r\<close> (which may be empty).
\<close>

definition replaceAll :: "jschar \<Rightarrow> jsstring \<Rightarrow> jsstring \<Rightarrow> jsstring" where
  "replaceAll c r s = concat (map (\<lambda>x. if x = c then r else [x]) s)"

section \<open>The URL-safe alphabet transform\<close>

text \<open>
  \<^verbatim>\<open>
  const toUrlSafeBase64 = (base64: string): string => {
      return base64.replace(/\+/g, '-').replace(/\//g, '_').replace(/=/g, '');
  };
  \<close>
\<close>

definition toUrlSafeBase64 :: "jsstring \<Rightarrow> jsstring" where
  "toUrlSafeBase64 base64 =
     replaceAll chr_eq []
       (replaceAll chr_slash [chr_underscore]
         (replaceAll chr_plus [chr_minus] base64))"

text \<open>
  \<^verbatim>\<open>
  const fromUrlSafeBase64 = (safeBase64: string): string => {
      let base64 = safeBase64.replace(/-/g, '+').replace(/_/g, '/');
      while (base64.length % 4) {
          base64 += '=';
      }
      return base64;
  };
  \<close>
  The while loop is the recursive function \<open>pad_loop\<close>; its termination is proved.
\<close>

function pad_loop :: "jsstring \<Rightarrow> jsstring" where
  "pad_loop base64 =
     (if length base64 mod 4 \<noteq> 0 then pad_loop (base64 @ [chr_eq]) else base64)"
  by pat_completeness auto
termination
proof (relation "measure (\<lambda>b. (4 - length b mod 4) mod 4)")
  show "wf (measure (\<lambda>b::jsstring. (4 - length b mod 4) mod 4))" by simp
next
  fix base64 :: jsstring
  assume "length base64 mod 4 \<noteq> 0"
  moreover have "length base64 mod 4 < 4" by simp
  ultimately have
    "length base64 mod 4 = 1 \<or> length base64 mod 4 = 2 \<or> length base64 mod 4 = 3"
    by linarith
  then have "(4 - Suc (length base64) mod 4) mod 4 < (4 - length base64 mod 4) mod 4"
    by (elim disjE) (simp_all add: mod_Suc)
  then show "(base64 @ [chr_eq], base64) \<in> measure (\<lambda>b. (4 - length b mod 4) mod 4)"
    by simp
qed

declare pad_loop.simps [simp del]

definition fromUrlSafeBase64 :: "jsstring \<Rightarrow> jsstring" where
  "fromUrlSafeBase64 safeBase64 =
     pad_loop (replaceAll chr_underscore [chr_slash]
                (replaceAll chr_minus [chr_plus] safeBase64))"

section \<open>Standard base64\<close>

text \<open>
  The alphabet of RFC 4648, section 4. A valid standard base64 string is a run of
  alphabet characters followed by at most two \<open>=\<close>, of a length divisible by four.
\<close>

definition b64chars :: jsstring where
  "b64chars = js ''ABCDEFGHIJKLMNOPQRSTUVWXYZabcdefghijklmnopqrstuvwxyz0123456789+/''"

definition is_b64_char :: "jschar \<Rightarrow> bool" where
  "is_b64_char c = (c \<in> set b64chars)"

definition valid_base64 :: "jsstring \<Rightarrow> bool" where
  "valid_base64 b =
     (let body = takeWhile (\<lambda>c. c \<noteq> chr_eq) b;
          padding = dropWhile (\<lambda>c. c \<noteq> chr_eq) b
      in list_all is_b64_char body \<and> list_all (\<lambda>c. c = chr_eq) padding \<and>
         length padding \<le> 2 \<and> length b mod 4 = 0)"

text \<open>
  Modelled from the platform's contract (RFC 4648): the standard encoding that
  \<open>FileReader.readAsDataURL\<close> puts after the comma of a data URL. Three bytes make four
  characters; a last group of one or two bytes is padded with \<open>=\<close>.
\<close>

definition b64char :: "nat \<Rightarrow> jschar" where
  "b64char n = b64chars ! n"

fun b64encode :: "byte list \<Rightarrow> jsstring" where
  "b64encode [] = []"
| "b64encode [a] =
     [b64char (unat a div 4), b64char (unat a mod 4 * 16), chr_eq, chr_eq]"
| "b64encode [a, b] =
     [b64char (unat a div 4), b64char (unat a mod 4 * 16 + unat b div 16),
      b64char (unat b mod 16 * 4), chr_eq]"
| "b64encode (a # b # c # rest) =
     [b64char (unat a div 4), b64char (unat a mod 4 * 16 + unat b div 16),
      b64char (unat b mod 16 * 4 + unat c div 64), b64char (unat c mod 64)]
     @ b64encode rest"

text \<open>
  Modelled from the platform's contract (RFC 4648): the decoding that \<open>fetch\<close> applies to
  the part of a base64 data URL after the comma. \<open>None\<close> is the rejected fetch.
\<close>

fun index_of :: "'a \<Rightarrow> 'a list \<Rightarrow> nat option" where
  "index_of c [] = None"
| "index_of c (x # xs) = (if c = x then Some 0 else map_option Suc (index_of c xs))"

definition b64index :: "jschar \<Rightarrow> nat option" where
  "b64index c = index_of c b64chars"

fun b64decode :: "jsstring \<Rightarrow> byte list option" where
  "b64decode [] = Some []"
| "b64decode (c1 # c2 # c3 # c4 # rest) =
     (case (b64index c1, b64index c2) of
        (Some s1, Some s2) \<Rightarrow>
          if rest = [] \<and> c3 = chr_eq \<and> c4 = chr_eq then Some [of_nat (s1 * 4 + s2 div 16)]
          else (case b64index c3 of
                  Some s3 \<Rightarrow>
                    if rest = [] \<and> c4 = chr_eq
                    then Some [of_nat (s1 * 4 + s2 div 16), of_nat (s2 mod 16 * 16 + s3 div 4)]
                    else (case (b64index c4, b64decode rest) of
                            (Some s4, Some bytes) \<Rightarrow>
                              Some (of_nat (s1 * 4 + s2 div 16) #
                                    of_nat (s2 mod 16 * 16 + s3 div 4) #
                                    of_nat (s3 mod 4 * 64 + s4) # bytes)
                          | _ \<Rightarrow> None)
                | None \<Rightarrow> None)
      | _ \<Rightarrow> None)"
| "b64decode _ = None"

section \<open>JavaScript values and errors\<close>

text \<open>
  A number is an IEEE double: a finite one is a (dyadic) rational, the rest are the two
  infinities and NaN. Only whether a number is zero matters below.
\<close>

datatype number = Finite rat | PlusInfinity | MinusInfinity | NaN

text \<open>
  The values that \<open>JSON.stringify\<close> reads and \<open>JSON.parse\<close> builds. The properties of an
  object are kept in creation order.
\<close>

datatype jsvalue =
    JNull
  | JBool bool
  | JNum number
  | JStr jsstring
  | JArr "jsvalue list"
  | JObj "(jsstring \<times> jsvalue) list"

text \<open>
  What a rejected promise or a \<open>throw\<close> carries: the built-in \<open>TypeError\<close> and
  \<open>SyntaxError\<close>, \<open>new Error(message)\<close>, the \<open>DOMException\<close> of a rejected share or
  clipboard write, and the \<open>ProgressEvent\<close> that \<open>reader.onerror = reject\<close> passes on.
\<close>

datatype error = TypeError | SyntaxError | Error jsstring | DOMException | ProgressEvent

text \<open>Truthiness of a value; \<open>None\<close> is \<open>undefined\<close>.\<close>

fun truthy :: "jsvalue option \<Rightarrow> bool" where
  "truthy None = False"
| "truthy (Some JNull) = False"
| "truthy (Some (JBool b)) = b"
| "truthy (Some (JNum (Finite r))) = (r \<noteq> 0)"
| "truthy (Some (JNum PlusInfinity)) = True"
| "truthy (Some (JNum MinusInfinity)) = True"
| "truthy (Some (JNum NaN)) = False"
| "truthy (Some (JStr s)) = (s \<noteq> [])"
| "truthy (Some (JArr vs)) = True"
| "truthy (Some (JObj kvs)) = True"

text \<open>
  \<open>data.k\<close> for a property name \<open>k\<close> that no prototype defines (the names read below are
  \<open>cardData\<close> and \<open>theme\<close>): reading a property of \<open>null\<close> throws a \<open>TypeError\<close>, a
  primitive or an array has no such property, an object yields its own property.
\<close>

fun getProp :: "jsvalue \<Rightarrow> jsstring \<Rightarrow> error + jsvalue option" where
  "getProp JNull k = Inl TypeError"
| "getProp (JObj kvs) k = Inr (map_of kvs k)"
| "getProp (JBool b) k = Inr None"
| "getProp (JNum n) k = Inr None"
| "getProp (JStr s) k = Inr None"
| "getProp (JArr vs) k = Inr None"

fun keys :: "jsvalue \<Rightarrow> jsstring list" where
  "keys (JObj kvs) = map fst kvs"
| "keys v = []"

section \<open>The data model (types.ts)\<close>

record SocialLink =
  id_sl :: jsstring
  platform :: jsstring
  url :: jsstring

datatype ContactType = Phone | Email | Website | Address | Youtube

record ContactInfo =
  id_ci :: jsstring
  type :: ContactType
  "value" :: jsstring

record CareerEntry =
  id_ce :: jsstring
  title :: jsstring
  company :: jsstring
  startDate :: jsstring
  endDate :: jsstring
  description :: jsstring

record ThemeColors =
  background :: jsstring
  "text" :: jsstring
  primary :: jsstring
  accent :: jsstring

record Media =
  src :: jsstring
  aspectRatio :: number
  zoom :: "number option"
  position :: "(number \<times> number) option"

datatype Layout = Classic | Modern | Minimalist | BannerFocus

record BusinessCardData =
  profilePicture :: Media
  bannerImage :: Media
  name :: jsstring
  title :: jsstring
  company :: jsstring
  bio :: jsstring
  contactInfo :: "ContactInfo list"
  socialLinks :: "SocialLink list"
  careerHistory :: "CareerEntry list"
  fontFamily :: jsstring
  nameFontSize :: number
  nameFontWeight :: number
  nameFontColor :: jsstring
  titleFontSize :: number
  titleFontWeight :: number
  titleFontColor :: jsstring
  companyFontSize :: number
  companyFontWeight :: number
  companyFontColor :: jsstring
  baseFontSize :: number
  baseFontWeight :: number
  baseFontColor :: jsstring
  layout :: Layout

record SavedCard =
  id_sc :: jsstring
  cardData :: BusinessCardData
  theme :: ThemeColors
  thumbnail :: jsstring
  isPublic :: bool

subsection \<open>The objects behind the typed values\<close>

text \<open>
  At run time a value of one of these interfaces is an object with the interface's
  properties; an optional property that is absent has no key. The properties are in the
  order in which \<open>getDefaultCardData\<close> and the editor create them, which for a card is the
  order of the interface but for \<open>bannerImage\<close>, created before \<open>profilePicture\<close>.
\<close>

fun ContactType_str :: "ContactType \<Rightarrow> jsstring" where
  "ContactType_str Phone = js ''phone''"
| "ContactType_str Email = js ''email''"
| "ContactType_str Website = js ''website''"
| "ContactType_str Address = js ''address''"
| "ContactType_str Youtube = js ''youtube''"

fun Layout_str :: "Layout \<Rightarrow> jsstring" where
  "Layout_str Classic = js ''classic''"
| "Layout_str Modern = js ''modern''"
| "Layout_str Minimalist = js ''minimalist''"
| "Layout_str BannerFocus = js ''banner-focus''"

definition SocialLink_value :: "SocialLink \<Rightarrow> jsvalue" where
  "SocialLink_value l =
     JObj [(js ''id'', JStr (id_sl l)), (js ''platform'', JStr (platform l)),
           (js ''url'', JStr (SocialLink.url l))]"

definition ContactInfo_value :: "ContactInfo \<Rightarrow> jsvalue" where
  "ContactInfo_value c =
     JObj [(js ''id'', JStr (id_ci c)), (js ''type'', JStr (ContactType_str (type c))),
           (js ''value'', JStr (value c))]"

definition CareerEntry_value :: "CareerEntry \<Rightarrow> jsvalue" where
  "CareerEntry_value e =
     JObj [(js ''id'', JStr (id_ce e)), (js ''title'', JStr (CareerEntry.title e)),
           (js ''company'', JStr (CareerEntry.company e)),
           (js ''startDate'', JStr (startDate e)), (js ''endDate'', JStr (endDate e)),
           (js ''description'', JStr (description e))]"

definition ThemeColors_value :: "ThemeColors \<Rightarrow> jsvalue" where
  "ThemeColors_value t =
     JObj [(js ''background'', JStr (background t)), (js ''text'', JStr (ThemeColors.text t)),
           (js ''primary'', JStr (primary t)), (js ''accent'', JStr (accent t))]"

definition Media_value :: "Media \<Rightarrow> jsvalue" where
  "Media_value m =
     JObj ([(js ''src'', JStr (src m)), (js ''aspectRatio'', JNum (aspectRatio m))]
           @ (case zoom m of None \<Rightarrow> [] | Some z \<Rightarrow> [(js ''zoom'', JNum z)])
           @ (case position m of None \<Rightarrow> []
              | Some (x, y) \<Rightarrow> [(js ''position'', JObj [(js ''x'', JNum x), (js ''y'', JNum y)])]))"

definition BusinessCardData_value :: "BusinessCardData \<Rightarrow> jsvalue" where
  "BusinessCardData_value d =
     JObj [(js ''bannerImage'', Media_value (bannerImage d)),
           (js ''profilePicture'', Media_value (profilePicture d)),
           (js ''name'', JStr (name d)),
           (js ''title'', JStr (BusinessCardData.title d)),
           (js ''company'', JStr (BusinessCardData.company d)),
           (js ''bio'', JStr (bio d)),
           (js ''contactInfo'', JArr (map ContactInfo_value (contactInfo d))),
           (js ''socialLinks'', JArr (map SocialLink_value (socialLinks d))),
           (js ''careerHistory'', JArr (map CareerEntry_value (careerHistory d))),
           (js ''fontFamily'', JStr (fontFamily d)),
           (js ''nameFontSize'', JNum (nameFontSize d)),
           (js ''nameFontWeight'', JNum (nameFontWeight d)),
           (js ''nameFontColor'', JStr (nameFontColor d)),
           (js ''titleFontSize'', JNum (titleFontSize d)),
           (js ''titleFontWeight'', JNum (titleFontWeight d)),
           (js ''titleFontColor'', JStr (titleFontColor d)),
           (js ''companyFontSize'', JNum (companyFontSize d)),
           (js ''companyFontWeight'', JNum (companyFontWeight d)),
           (js ''companyFontColor'', JStr (companyFontColor d)),
           (js ''baseFontSize'', JNum (baseFontSize d)),
           (js ''baseFontWeight'', JNum (baseFontWeight d)),
           (js ''baseFontColor'', JStr (baseFontColor d)),
           (js ''layout'', JStr (Layout_str (layout d)))]"

section \<open>The browser\<close>

text \<open>
  The \<open>title\<close>/\<open>text\<close>/\<open>url\<close> triple handed to \<open>navigator.share\<close>.
\<close>

record ShareData =
  title :: jsstring
  "text" :: jsstring
  url :: jsstring

text \<open>
  The functions of the host environment that the code calls and this repository does not
  define. They are parameters of the model: \<open>JSON.stringify\<close> and \<open>JSON.parse\<close> (\<open>None\<close>
  is its \<open>SyntaxError\<close>), the UTF-8 text of a \<open>Blob\<close>, the gzip streams (\<open>None\<close> is a
  stream error), whether the \<open>FileReader\<close> fails, the fetch of a data URL (\<open>None\<close> is the
  rejected fetch), \<open>URLSearchParams.get\<close>, and the share and clipboard facilities with
  their outcomes.
\<close>

record platform =
  JSON_stringify :: "jsvalue \<Rightarrow> jsstring"
  JSON_parse :: "jsstring \<Rightarrow> jsvalue option"
  utf8_encode :: "jsstring \<Rightarrow> byte list"
  utf8_decode :: "byte list \<Rightarrow> jsstring"
  gzip :: "byte list \<Rightarrow> byte list"
  gunzip :: "byte list \<Rightarrow> byte list option"
  reader_error :: "byte list \<Rightarrow> bool"
  fetch_data_url :: "jsstring \<Rightarrow> byte list option"
  URLSearchParams_get :: "jsstring \<Rightarrow> jsstring \<Rightarrow> jsstring option"
  navigator_share :: bool
  navigator_canShare :: bool
  canShare :: "ShareData \<Rightarrow> bool"
  share_rejects :: "ShareData \<Rightarrow> bool"
  clipboard_rejects :: "jsstring \<Rightarrow> bool"

text \<open>What the code does to the outside world, in the order it does it.\<close>

datatype effect =
    Alert jsstring
  | ConsoleError jsstring error
  | ConsoleWarn jsstring
  | ConsoleLog jsstring
  | Share ShareData
  | ClipboardWrite jsstring
  | ReplaceState jsstring

record Location =
  protocol :: jsstring
  host :: jsstring
  pathname :: jsstring
  search :: jsstring

text \<open>
  The state variables of \<open>AppContent\<close> that the sharing code reads or writes, the
  address of the page, and the effects so far.
\<close>

record AppState =
  cardData :: BusinessCardData
  theme :: ThemeColors
  savedCards :: "SavedCard list"
  editingCardId :: "jsstring option"
  receivedCard :: "jsvalue option"
  copySuccess :: bool
  isExporting :: bool
  exportMessage :: jsstring
  currentUser :: "jsstring option"
  isAdmin :: bool
  location :: Location
  effects :: "effect list"

definition emit :: "effect \<Rightarrow> AppState \<Rightarrow> AppState" where
  "emit e st = st\<lparr>effects := effects st @ [e]\<rparr>"

section \<open>Encoding and decoding\<close>

text \<open>\<open>s.split(c, n)\<close> for a one-character separator, and \<open>xs[i]\<close> with \<open>undefined\<close> as \<open>None\<close>.\<close>

fun split_on :: "jschar \<Rightarrow> jsstring \<Rightarrow> jsstring list" where
  "split_on c [] = [[]]"
| "split_on c (x # xs) =
     (if x = c then [] # split_on c xs
      else (case split_on c xs of [] \<Rightarrow> [[x]] | y # ys \<Rightarrow> (x # y) # ys))"

definition split_limit :: "jschar \<Rightarrow> nat \<Rightarrow> jsstring \<Rightarrow> jsstring list" where
  "split_limit c n s = take n (split_on c s)"

definition at_index :: "'a list \<Rightarrow> nat \<Rightarrow> 'a option" where
  "at_index xs i = (if i < length xs then Some (xs ! i) else None)"

text \<open>
  \<open>FileReader.readAsDataURL\<close> of a blob without a type: the prefix, then the base64 of
  the bytes; \<open>None\<close> when the reader fails.
\<close>

definition data_url_prefix :: jsstring where
  "data_url_prefix = js ''data:application/octet-stream;base64,''"

definition readAsDataURL :: "platform \<Rightarrow> byte list \<Rightarrow> jsstring option" where
  "readAsDataURL pf blob =
     (if reader_error pf blob then None else Some (data_url_prefix @ b64encode blob))"

text \<open>
  \<^verbatim>\<open>
  const compressAndEncode = async (data: object): Promise<string> => {
      const jsonString = JSON.stringify(data);
      const stream = new Blob([jsonString], { type: 'application/json' }).stream()
                       .pipeThrough(new CompressionStream('gzip'));
      const compressedBlob = await new Response(stream).blob();
      const dataUrl = await new Promise<string>((resolve, reject) => {
          const reader = new FileReader();
          reader.onloadend = () => resolve(reader.result as string);
          reader.onerror = reject;
          reader.readAsDataURL(compressedBlob);
      });
      return dataUrl.split(',', 2)[1];
  };
  \<close>
  The result is \<open>Inl\<close> for the rejected promise, \<open>Inr None\<close> for \<open>undefined\<close>.
\<close>

definition compressAndEncode :: "platform \<Rightarrow> jsvalue \<Rightarrow> error + jsstring option" where
  "compressAndEncode pf data =
     (let jsonString = JSON_stringify pf data;
          compressedBlob = gzip pf (utf8_encode pf jsonString)
      in case readAsDataURL pf compressedBlob of
           None \<Rightarrow> Inl ProgressEvent
         | Some dataUrl \<Rightarrow> Inr (at_index (split_limit chr_comma 2 dataUrl) 1))"

text \<open>
  \<^verbatim>\<open>
  const decodeAndDecompress = async (base64: string): Promise<any> => {
      const compressedBlob =
        await (await fetch(`data:application/octet-stream;base64,${base64}`)).blob();
      const stream = compressedBlob.stream().pipeThrough(new DecompressionStream('gzip'));
      const decompressedBlob = await new Response(stream).blob();
      const jsonString = await decompressedBlob.text();
      return JSON.parse(jsonString);
  };
  \<close>
  A rejected fetch and a failed decompression stream are both a \<open>TypeError\<close>.
\<close>

definition decodeAndDecompress :: "platform \<Rightarrow> jsstring \<Rightarrow> error + jsvalue" where
  "decodeAndDecompress pf base64 =
     (case fetch_data_url pf (data_url_prefix @ base64) of
        None \<Rightarrow> Inl TypeError
      | Some compressedBlob \<Rightarrow>
          (case gunzip pf compressedBlob of
             None \<Rightarrow> Inl TypeError
           | Some decompressedBlob \<Rightarrow>
               (case JSON_parse pf (utf8_decode pf decompressedBlob) of
                  None \<Rightarrow> Inl SyntaxError
                | Some v \<Rightarrow> Inr v)))"

text \<open>
  The two compositions that the callers write out and the specification names:
  \<^verbatim>\<open>
  const encodedData = await compressAndEncode(...);
  const safeEncodedData = toUrlSafeBase64(encodedData);
  \<close>
  where \<open>toUrlSafeBase64(undefined)\<close> throws a \<open>TypeError\<close>, and
  \<^verbatim>\<open>
  const standardBase64 = fromUrlSafeBase64(cardDataParam);
  const data = await decodeAndDecompress(standardBase64);
  \<close>
\<close>

definition Encode :: "platform \<Rightarrow> jsvalue \<Rightarrow> error + jsstring" where
  "Encode pf p =
     (case compressAndEncode pf p of
        Inl e \<Rightarrow> Inl e
      | Inr None \<Rightarrow> Inl TypeError
      | Inr (Some encodedData) \<Rightarrow> Inr (toUrlSafeBase64 encodedData))"

definition Decode :: "platform \<Rightarrow> jsstring \<Rightarrow> error + jsvalue" where
  "Decode pf cardDataParam = decodeAndDecompress pf (fromUrlSafeBase64 cardDataParam)"

section \<open>Opening a shared link\<close>

definition replaceState :: "AppState \<Rightarrow> AppState" where
  "replaceState st =
     emit (ReplaceState (pathname (location st)))
       (st\<lparr>location := (location st)\<lparr>search := []\<rparr>\<rparr>)"

text \<open>
  The condition \<open>data.cardData && data.theme\<close>: the second property is read only when
  the first is truthy, and reading a property of \<open>null\<close> throws.
\<close>

definition cardData_and_theme :: "jsvalue \<Rightarrow> error + bool" where
  "cardData_and_theme data =
     (case getProp data (js ''cardData'') of
        Inl e \<Rightarrow> Inl e
      | Inr c \<Rightarrow>
          if truthy c then
            (case getProp data (js ''theme'') of
               Inl e \<Rightarrow> Inl e
             | Inr t \<Rightarrow> Inr (truthy t))
          else Inr False)"

text \<open>
  The body of the \<open>try\<close> block of \<open>initializeApp\<close>: the error thrown, if any, and the
  state reached.
  \<^verbatim>\<open>
  const standardBase64 = fromUrlSafeBase64(cardDataParam);
  const data = await decodeAndDecompress(standardBase64);
  if (data.cardData && data.theme) {
      setReceivedCard(data);
  } else {
      throw new Error("Invalid card data structure");
  }
  \<close>
\<close>

definition initializeApp_try :: "platform \<Rightarrow> jsstring \<Rightarrow> AppState \<Rightarrow> error option \<times> AppState" where
  "initializeApp_try pf cardDataParam st =
     (case Decode pf cardDataParam of
        Inl e \<Rightarrow> (Some e, st)
      | Inr data \<Rightarrow>
          (case cardData_and_theme data of
             Inl e \<Rightarrow> (Some e, st)
           | Inr ok \<Rightarrow>
               if ok then (None, st\<lparr>receivedCard := Some data\<rparr>)
               else (Some (Error (js ''Invalid card data structure'')), st)))"

text \<open>
  \<^verbatim>\<open>
  const urlParams = new URLSearchParams(window.location.search);
  const cardDataParam = urlParams.get('card');
  if (cardDataParam) {
      try { ... } catch (error) {
          console.error("Failed to process shared card data:", error);
          alert("The shared card link seems to be invalid or corrupted.");
          window.history.replaceState({}, document.title, window.location.pathname);
      }
  }
  setCurrentUser(null);
  setIsAdmin(false);
  \<close>
  The rest of \<open>initializeApp\<close> (the Kakao SDK and the company information) touches none
  of the state kept here.
\<close>

definition initializeApp :: "platform \<Rightarrow> AppState \<Rightarrow> AppState" where
  "initializeApp pf st =
     (let st1 =
        (case URLSearchParams_get pf (search (location st)) (js ''card'') of
           None \<Rightarrow> st
         | Some cardDataParam \<Rightarrow>
             if cardDataParam = [] then st
             else (case initializeApp_try pf cardDataParam st of
                     (None, st') \<Rightarrow> st'
                   | (Some e, st') \<Rightarrow>
                       replaceState
                         (emit (Alert (js ''The shared card link seems to be invalid or corrupted.''))
                           (emit (ConsoleError (js ''Failed to process shared card data:'') e) st'))))
      in st1\<lparr>currentUser := None, isAdmin := False\<rparr>)"

section \<open>Sharing a card\<close>

text \<open>
  \<^verbatim>\<open>
  const getDataForSharing = () => {
    const isEditingSavedCard = editingCardId && savedCards.some(c => c.id === editingCardId);
    if (isEditingSavedCard) {
      const savedCard = savedCards.find(c => c.id === editingCardId)!;
      return { cardData: savedCard.cardData, theme: savedCard.theme };
    }
    return { cardData, theme };
  };
  \<close>
\<close>

definition getDataForSharing :: "AppState \<Rightarrow> BusinessCardData \<times> ThemeColors" where
  "getDataForSharing st =
     (case editingCardId st of
        None \<Rightarrow> (AppState.cardData st, AppState.theme st)
      | Some i \<Rightarrow>
          if i = [] then (AppState.cardData st, AppState.theme st)
          else (case find (\<lambda>c. id_sc c = i) (savedCards st) of
                  Some savedCard \<Rightarrow> (SavedCard.cardData savedCard, SavedCard.theme savedCard)
                | None \<Rightarrow> (AppState.cardData st, AppState.theme st)))"

text \<open>The object \<open>{ cardData, theme }\<close> that \<open>getDataForSharing\<close> returns.\<close>

definition dataToShare_value :: "BusinessCardData \<times> ThemeColors \<Rightarrow> jsvalue" where
  "dataToShare_value d =
     JObj [(js ''cardData'', BusinessCardData_value (fst d)),
           (js ''theme'', ThemeColors_value (snd d))]"

text \<open>
  \<^verbatim>\<open>
  // Create a simplified version for sharing to reduce size
  const simplifiedData = {
      cardData: {
          name: dataToShare.cardData.name,
          title: dataToShare.cardData.title,
          company: dataToShare.cardData.company,
          bio: dataToShare.cardData.bio,
          contactInfo: dataToShare.cardData.contactInfo,
          socialLinks: dataToShare.cardData.socialLinks,
          careerHistory: dataToShare.cardData.careerHistory
      },
      theme: dataToShare.theme
  };
  \<close>
\<close>

definition simplifiedData :: "BusinessCardData \<times> ThemeColors \<Rightarrow> jsvalue" where
  "simplifiedData dataToShare =
     JObj [(js ''cardData'',
            JObj [(js ''name'', JStr (name (fst dataToShare))),
                  (js ''title'', JStr (BusinessCardData.title (fst dataToShare))),
                  (js ''company'', JStr (BusinessCardData.company (fst dataToShare))),
                  (js ''bio'', JStr (bio (fst dataToShare))),
                  (js ''contactInfo'', JArr (map ContactInfo_value (contactInfo (fst dataToShare)))),
                  (js ''socialLinks'', JArr (map SocialLink_value (socialLinks (fst dataToShare)))),
                  (js ''careerHistory'',
                   JArr (map CareerEntry_value (careerHistory (fst dataToShare))))]),
           (js ''theme'', ThemeColors_value (snd dataToShare))]"

text \<open>
  The three statements that end every branch of the sharing code:
  \<^verbatim>\<open>
  await navigator.clipboard.writeText(t);
  setCopySuccess(true);
  setTimeout(() => setCopySuccess(false), 2000);
  \<close>
  The timer fires after the call has returned and is not part of it.
\<close>

definition copyToClipboard :: "platform \<Rightarrow> jsstring \<Rightarrow> AppState \<Rightarrow> error option \<times> AppState" where
  "copyToClipboard pf t st =
     (let st1 = emit (ClipboardWrite t) st
      in if clipboard_rejects pf t then (Some DOMException, st1)
         else (None, st1\<lparr>copySuccess := True\<rparr>))"

definition chr_apostrophe :: jschar where "chr_apostrophe = 0x27"

text \<open>The literal \<^verbatim>\<open>?card=\<close>.\<close>

definition query_card :: jsstring where
  "query_card = 0x3F # js ''card=''"

definition baseUrl :: "AppState \<Rightarrow> jsstring" where
  "baseUrl st = protocol (location st) @ js ''//'' @ host (location st) @ pathname (location st)"

text \<open>The Korean literals of the fallback branch, as UTF-16 code units.\<close>

definition shareText_named :: jsstring where
  "shareText_named =
     [0xC758, 0x0020, 0xB514, 0xC9C0, 0xD138, 0x0020, 0xBA85, 0xD568, 0xC744, 0x0020,
      0xD655, 0xC778, 0xD574, 0xBCF4, 0xC138, 0xC694, 0x0021]"

definition shareText_plain :: jsstring where
  "shareText_plain =
     [0xB514, 0xC9C0, 0xD138, 0x0020, 0xBA85, 0xD568, 0xC744, 0x0020,
      0xD655, 0xC778, 0xD574, 0xBCF4, 0xC138, 0xC694, 0x0021]"

definition shareTitle_ko :: jsstring where
  "shareTitle_ko = [0xB514, 0xC9C0, 0xD138, 0x0020, 0xBA85, 0xD568]"

definition linkFailed_ko :: jsstring where
  "linkFailed_ko =
     [0xB9C1, 0xD06C, 0x0020, 0xC0DD, 0xC131, 0xC5D0, 0x0020, 0xC2E4, 0xD328, 0xD588,
      0xC2B5, 0xB2C8, 0xB2E4, 0x002E, 0x0020, 0xB2E4, 0xC2DC, 0x0020, 0xC2DC, 0xB3C4,
      0xD574, 0xC8FC, 0xC138, 0xC694, 0x002E]"

text \<open>
  The body of the \<open>try\<close> block of \<open>createAndShareLink\<close> (lines 539 to 613 of the
  source): the simplified payload is encoded, the link is assembled, and a link of more
  than 2000 code units is replaced by a short text and the bare address.
\<close>

definition createAndShareLink_try ::
  "platform \<Rightarrow> BusinessCardData \<times> ThemeColors \<Rightarrow> AppState \<Rightarrow> error option \<times> AppState" where
  "createAndShareLink_try pf dataToShare st =
     (case Encode pf (simplifiedData dataToShare) of
        Inl e \<Rightarrow> (Some e, st)
      | Inr safeEncodedData \<Rightarrow>
          (let url = baseUrl st @ query_card @ safeEncodedData;
               cardName = name (fst dataToShare)
           in if length url > 2000 then
                (let st1 = emit (ConsoleWarn (js ''URL too long, using simplified sharing'')) st;
                     shareText = (if cardName \<noteq> [] then cardName @ shareText_named
                                  else shareText_plain)
                 in if navigator_share pf \<and> navigator_canShare pf then
                      (let d = \<lparr>ShareData.title = shareTitle_ko, ShareData.text = shareText,
                                 ShareData.url = baseUrl st\<rparr>;
                           st2 = emit (Share d) st1
                       in if share_rejects pf d then
                            copyToClipboard pf (shareText @ js '' '' @ baseUrl st)
                              (emit (ConsoleLog (js ''Web Share API failed, falling back to copy:'')) st2)
                          else (None, st2))
                    else copyToClipboard pf (shareText @ js '' '' @ baseUrl st) st1)
              else
                (let sharePayload =
                       \<lparr>ShareData.title = (if cardName \<noteq> [] then cardName @ chr_apostrophe # js ''s Business Card''
                                            else js ''Digital Business Card''),
                        ShareData.text = (if cardName \<noteq> []
                                           then js ''Check out '' @ cardName @ chr_apostrophe # js ''s digital business card.''
                                           else js ''Check out my digital business card.''),
                        ShareData.url = url\<rparr>
                 in if navigator_share pf \<and> navigator_canShare pf \<and> canShare pf sharePayload then
                      (let st2 = emit (Share sharePayload) st
                       in if share_rejects pf sharePayload then
                            copyToClipboard pf url
                              (emit (ConsoleLog (js ''Web Share API failed, falling back to copy:'')) st2)
                          else (None, st2))
                    else copyToClipboard pf url
                           (emit (ConsoleLog (js ''Web Share API not supported, falling back to copy.'')) st))))"

text \<open>
  \<^verbatim>\<open>
  setExportMessage('Creating share link...');
  setIsExporting(true);
  try { ... } catch (error) {
      console.error("Failed to create or share link:", error);
      alert(...);
  } finally {
      setIsExporting(false);
      setExportMessage('');
  }
  \<close>
\<close>

definition createAndShareLink ::
  "platform \<Rightarrow> BusinessCardData \<times> ThemeColors \<Rightarrow> AppState \<Rightarrow> AppState" where
  "createAndShareLink pf dataToShare st =
     (let st0 = st\<lparr>exportMessage := js ''Creating share link...'', isExporting := True\<rparr>;
          st1 = (case createAndShareLink_try pf dataToShare st0 of
                   (None, st') \<Rightarrow> st'
                 | (Some e, st') \<Rightarrow>
                     emit (Alert linkFailed_ko)
                       (emit (ConsoleError (js ''Failed to create or share link:'') e) st'))
      in st1\<lparr>isExporting := False, exportMessage := []\<rparr>)"

definition handleShare :: "platform \<Rightarrow> AppState \<Rightarrow> AppState" where
  "handleShare pf st = createAndShareLink pf (getDataForSharing st) st"

text \<open>
  \<^verbatim>\<open>
  const dataToShare = getDataForSharing();
  try {
      const encodedData = await compressAndEncode(dataToShare);
      const safeEncodedData = toUrlSafeBase64(encodedData);
      const baseUrl = `${window.location.protocol}//${window.location.host}${window.location.pathname}`;
      const url = `${baseUrl}?card=${safeEncodedData}`;
      await navigator.clipboard.writeText(url);
      setCopySuccess(true);
      setTimeout(() => setCopySuccess(false), 2000);
  } catch (error) { ... }
  \<close>
\<close>

definition handleCopyShareLink_try :: "platform \<Rightarrow> AppState \<Rightarrow> error option \<times> AppState" where
  "handleCopyShareLink_try pf st =
     (case Encode pf (dataToShare_value (getDataForSharing st)) of
        Inl e \<Rightarrow> (Some e, st)
      | Inr safeEncodedData \<Rightarrow>
          copyToClipboard pf (baseUrl st @ query_card @ safeEncodedData) st)"

definition handleCopyShareLink :: "platform \<Rightarrow> AppState \<Rightarrow> AppState" where
  "handleCopyShareLink pf st =
     (let st0 = st\<lparr>exportMessage := js ''Creating share link...'', isExporting := True\<rparr>;
          st1 = (case handleCopyShareLink_try pf st0 of
                   (None, st') \<Rightarrow> st'
                 | (Some e, st') \<Rightarrow>
                     emit (Alert (js ''Could not create a shareable link.''))
                       (emit (ConsoleError (js ''Failed to create share link:'') e) st'))
      in st1\<lparr>isExporting := False, exportMessage := []\<rparr>)"

section \<open>A sample card and a sample browser\<close>

text \<open>
  The card of Scenario A of the specification, completed with the defaults of
  \<open>getDefaultCardData\<close> and \<open>THEMES\<close> for the properties the scenario leaves open.
\<close>

definition sample_media :: Media where
  "sample_media = \<lparr>src = [], aspectRatio = Finite 1, zoom = None, position = None\<rparr>"

definition sample_card :: BusinessCardData where
  "sample_card =
     \<lparr>profilePicture = sample_media, bannerImage = sample_media,
      name = js ''Jane Doe'', BusinessCardData.title = js ''Engineer'',
      BusinessCardData.company = js ''Acme'', bio = js ''Builds things.'',
      contactInfo = [\<lparr>id_ci = js ''c1'', type = Email, value = js ''jane@acme.com''\<rparr>],
      socialLinks = [], careerHistory = [],
      fontFamily = js ''system-ui, sans-serif'',
      nameFontSize = Finite 28, nameFontWeight = Finite 700, nameFontColor = js ''#1F2937'',
      titleFontSize = Finite 16, titleFontWeight = Finite 500, titleFontColor = js ''#374151'',
      companyFontSize = Finite 18, companyFontWeight = Finite 600,
      companyFontColor = js ''#1F2937'',
      baseFontSize = Finite 14, baseFontWeight = Finite 400, baseFontColor = js ''#374151'',
      layout = Classic\<rparr>"

definition sample_theme :: ThemeColors where
  "sample_theme =
     \<lparr>background = js ''#FFFFFF'', ThemeColors.text = js ''#000000'',
      primary = js ''#111111'', accent = js ''#EEEEEE''\<rparr>"

definition sample_state :: AppState where
  "sample_state =
     \<lparr>AppState.cardData = sample_card, AppState.theme = sample_theme, savedCards = [],
      editingCardId = None, receivedCard = None, copySuccess = False, isExporting = False,
      exportMessage = [], currentUser = None, isAdmin = False,
      location = \<lparr>protocol = js ''https:'', host = js ''onepage.example'',
                   pathname = js ''/'', search = []\<rparr>,
      effects = []\<rparr>"

text \<open>
  JSON texts are written with a backquote where the text has a double quote.
\<close>

definition json_literal :: "string \<Rightarrow> jsstring" where
  "json_literal s = map (\<lambda>c. if c = CHR ''`'' then 0x22 else of_char c) s"

text \<open>
  The browser at the samples: the JSON text of the two payloads of the sample card, of
  the objects \<^verbatim>\<open>{"a":1}\<close> and \<^verbatim>\<open>{"cardData":1,"theme":"x"}\<close> and of \<^verbatim>\<open>null\<close>, a gzip
  stream of each text and of the text \<^verbatim>\<open>not json\<close>, and the token of each stream.
\<close>

definition simplified_text :: jsstring where
  "simplified_text =
     json_literal ''{`cardData`:{`name`:`Jane Doe`,`title`:`Engineer`,`company`:`Acme`,`bio`:`Builds''
     @ json_literal '' things.`,`contactInfo`:[{`id`:`c1`,`type`:`email`,`value`:`jane@acme.com`}],`so''
     @ json_literal ''cialLinks`:[],`careerHistory`:[]},`theme`:{`background`:`#FFFFFF`,`text`:`#00000''
     @ json_literal ''0`,`primary`:`#111111`,`accent`:`#EEEEEE`}}''"

definition simplified_gz :: "byte list" where
  "simplified_gz =
     [0x1F, 0x8B, 0x08, 0x00, 0x00, 0x00, 0x00, 0x00, 0x00, 0x03, 0x1D, 0x8E, 0xC1, 0x6E,
     0x02, 0x31, 0x0C, 0x44, 0x7F, 0x05, 0x99, 0x2B, 0x42, 0xE5, 0xCA, 0x09, 0x10, 0x54,
     0x6D, 0xD5, 0x3F, 0xA8, 0x7A, 0x30, 0x5E, 0xB3, 0xB8, 0x24, 0xCE, 0x2A, 0xC9, 0xA2,
     0xAE, 0x56, 0xFB, 0xEF, 0xD8, 0x99, 0xDB, 0xBC, 0x4C, 0x66, 0x3C, 0x03, 0x61, 0xEE,
     0xCE, 0x58, 0x11, 0xF6, 0x33, 0x28, 0x46, 0x86, 0x3D, 0x7C, 0xA1, 0xF2, 0xEA, 0x9C,
     0x18, 0x36, 0x50, 0xA5, 0x06, 0x47, 0x17, 0xED, 0x45, 0x99, 0xB3, 0x21, 0x4A, 0x71,
     0x40, 0x9D, 0x0C, 0x1E, 0x29, 0x7A, 0xE6, 0x2A, 0xC9, 0xCC, 0x69, 0x94, 0xD0, 0x95,
     0x55, 0xBD, 0x8B, 0xF6, 0x65, 0xDB, 0x72, 0x5A, 0x91, 0xEA, 0xA7, 0xDE, 0xEC, 0xF9,
     0x67, 0x06, 0xE9, 0x2C, 0x45, 0x3B, 0x2F, 0x9D, 0x06, 0xEF, 0xE4, 0x88, 0x12, 0xCC,
     0x3E, 0x31, 0x8C, 0xEE, 0xFF, 0x6C, 0xF6, 0x80, 0xD6, 0xB9, 0xB5, 0x09, 0x58, 0x7E,
     0x37, 0x50, 0x12, 0x09, 0x86, 0x6F, 0xD1, 0x47, 0xB1, 0x0A, 0x03, 0x76, 0xAC, 0x1D,
     0xF1, 0x21, 0xA5, 0xA6, 0x3C, 0x39, 0x5A, 0xAC, 0xED, 0xCE, 0x7E, 0xF5, 0x0C, 0x57,
     0xA4, 0x47, 0x9F, 0xD3, 0xA8, 0x3E, 0xB4, 0x7E, 0x6F, 0xF2, 0x35, 0xFE, 0xAF, 0x0E,
     0xDE, 0x9A, 0x0C, 0x0C, 0x59, 0x22, 0xFA, 0x77, 0x58, 0xEF, 0x9A, 0x8C, 0x21, 0x11,
     0x6B, 0x8B, 0x5D, 0x9A, 0x60, 0x59, 0x5E, 0x4C, 0xAB, 0x0F, 0x21, 0x1B, 0x01, 0x00,
     0x00]"

definition simplified_token :: jsstring where
  "simplified_token =
     js ''H4sIAAAAAAAAAx2OwW4CMQxEfwWZK0LlygkQVG3VP6h6MF6zuCTOKsmirlb779iZ27xMZjwDYe7OWBH2''
     @ js ''MyhGhj18ofLqnBg2UKUGRxftRZmzIUpxQJ0MHil65irJzGmU0JVVvYv2ZdtyWpHqp97s-WcG6SxFOy-d''
     @ js ''Bu_kiBLMPjGM7v9s9oDWubUJWH43UBIJhm_RR7EKA3asHfEhpaY8OVqs7c5-9QxXpEef06g-tH5v8jX-''
     @ js ''rw7emgwMWSL6d1jvmowhEWuLXZpgWV5Mqw8hGwEAAA''"

definition full_text :: jsstring where
  "full_text =
     json_literal ''{`cardData`:{`bannerImage`:{`src`:``,`aspectRatio`:1},`profilePicture`:{`src`:``''
     @ json_literal '',`aspectRatio`:1},`name`:`Jane Doe`,`title`:`Engineer`,`company`:`Acme`,`bio`:`B''
     @ json_literal ''uilds things.`,`contactInfo`:[{`id`:`c1`,`type`:`email`,`value`:`jane@acme.com`}''
     @ json_literal ''],`socialLinks`:[],`careerHistory`:[],`fontFamily`:`system-ui, sans-serif`,`name''
     @ json_literal ''FontSize`:28,`nameFontWeight`:700,`nameFontColor`:`#1F2937`,`titleFontSize`:16,`''
     @ json_literal ''titleFontWeight`:500,`titleFontColor`:`#374151`,`companyFontSize`:18,`companyFon''
     @ json_literal ''tWeight`:600,`companyFontColor`:`#1F2937`,`baseFontSize`:14,`baseFontWeight`:400''
     @ json_literal '',`baseFontColor`:`#374151`,`layout`:`classic`},`theme`:{`background`:`#FFFFFF`,`''
     @ json_literal ''text`:`#000000`,`primary`:`#111111`,`accent`:`#EEEEEE`}}''"

definition full_gz :: "byte list" where
  "full_gz =
     [0x1F, 0x8B, 0x08, 0x00, 0x00, 0x00, 0x00, 0x00, 0x00, 0x03, 0x85, 0x92, 0x3D, 0x4F,
     0xC3, 0x40, 0x0C, 0x86, 0xFF, 0x4A, 0xE5, 0xAE, 0x01, 0x35, 0xA5, 0xA5, 0xD0, 0x89,
     0xCF, 0x8A, 0x22, 0x06, 0x04, 0x03, 0x03, 0x62, 0x70, 0xAF, 0xD7, 0xD4, 0x70, 0x1F,
     0xD5, 0xDD, 0x05, 0x11, 0xAA, 0xFC, 0x77, 0xEC, 0x54, 0x21, 0x45, 0x1D, 0xF0, 0xE6,
     0x37, 0xEF, 0x3D, 0x76, 0x6C, 0x6F, 0x41, 0x61, 0x58, 0xDE, 0x60, 0x42, 0x98, 0x6E,
     0x61, 0x81, 0xCE, 0xE9, 0x30, 0xB7, 0x58, 0x68, 0x49, 0x63, 0x50, 0x30, 0x05, 0xC8,
     0x00, 0xE3, 0x46, 0xAB, 0xF4, 0x84, 0x89, 0x3C, 0x4C, 0xF3, 0x3A, 0x83, 0x4D, 0xF0,
     0x2B, 0x32, 0xFA, 0x91, 0x54, 0x2A, 0xC3, 0x3F, 0x5E, 0x87, 0x96, 0x1D, 0x70, 0x8F,
     0x4E, 0xF7, 0x6E, 0xBC, 0x66, 0x4B, 0xA2, 0x64, 0x44, 0xBA, 0x75, 0x05, 0x39, 0xAD,
     0x03, 0x4B, 0xCA, 0xDB, 0x0D, 0xBA, 0x8A, 0xC5, 0x4B, 0x65, 0xC5, 0xB3, 0x90, 0xE7,
     0x70, 0x55, 0x92, 0x59, 0xC6, 0x5E, 0x5A, 0x93, 0x2B, 0xE2, 0x71, 0xE3, 0x73, 0x09,
     0x55, 0x9A, 0xBB, 0x15, 0x7F, 0x7E, 0xDD, 0x02, 0x2D, 0xD9, 0xA5, 0x72, 0x81, 0x56,
     0x1B, 0x61, 0x6A, 0x8B, 0x64, 0x38, 0xFD, 0x44, 0x53, 0x4A, 0xFE, 0xCE, 0x65, 0x2F,
     0x90, 0x99, 0xC7, 0x5C, 0x02, 0xEA, 0xB7, 0x0C, 0xA2, 0x57, 0x84, 0xE6, 0x81, 0xDC,
     0x47, 0x64, 0x04, 0x0B, 0x3C, 0x01, 0x6E, 0xE2, 0x8E, 0x62, 0xF2, 0xA1, 0xDA, 0x49,
     0x2B, 0x2E, 0x33, 0x43, 0x4B, 0x46, 0x3A, 0x8A, 0x55, 0x4C, 0xDA, 0x1E, 0x95, 0x94,
     0xF5, 0x22, 0xBA, 0x78, 0x14, 0x75, 0xA0, 0x15, 0xEC, 0x7E, 0x6C, 0xC6, 0xC6, 0x67,
     0xFA, 0xE6, 0x4A, 0xC3, 0xB3, 0x4E, 0x79, 0xD1, 0x54, 0xAC, 0x13, 0x4C, 0x27, 0x83,
     0x41, 0x27, 0x5E, 0x7B, 0xE3, 0x03, 0xE3, 0xFA, 0xF9, 0x6C, 0x78, 0x7E, 0x32, 0x69,
     0xE7, 0xD0, 0x11, 0xF2, 0xD3, 0x3D, 0xA9, 0x45, 0x8C, 0x05, 0xF1, 0xAB, 0xFE, 0x32,
     0x4E, 0x26, 0xA3, 0x7C, 0x9C, 0x77, 0x83, 0xDB, 0xA3, 0x9C, 0xFD, 0x11, 0x5B, 0xCE,
     0xA9, 0x70, 0xF6, 0xF4, 0xC3, 0x6E, 0x16, 0x18, 0xF7, 0x9B, 0x19, 0x75, 0x4A, 0xCB,
     0x18, 0x09, 0xA3, 0x15, 0x0F, 0x5B, 0x31, 0x58, 0xF9, 0x32, 0xC9, 0x3E, 0x0C, 0xC6,
     0x48, 0x0A, 0x78, 0xF9, 0x69, 0xAD, 0xAD, 0xDE, 0x9D, 0x96, 0xFA, 0x28, 0x82, 0x2F,
     0x9D, 0x2C, 0xAC, 0x3F, 0x6B, 0x42, 0x46, 0xA0, 0xBF, 0xE4, 0x45, 0x7F, 0xD0, 0x04,
     0xC8, 0x65, 0x91, 0x45, 0x59, 0x03, 0x77, 0xD6, 0x84, 0x9C, 0x94, 0x52, 0xDA, 0x35,
     0xB6, 0xDB, 0x26, 0xA0, 0xAE, 0x7F, 0x00, 0x18, 0x83, 0xC0, 0xA8, 0xB8, 0x02, 0x00,
     0x00]"

definition full_token :: jsstring where
  "full_token =
     js ''H4sIAAAAAAAAA4WSPU_DQAyG_0rlrgE1paXQic-KIgYEAwNicK_X1HAf1d0FEar8d-xUIUUd8OY37z12''
     @ js ''bG9BYVjeYEKYbmGBzukwt1hoSWNQMAXIAONGq_SEiTxM8zqDTfArMvqRVCrDP16Hlh1wj073brxmS6Jk''
     @ js ''RLp1BTmtA0vK2w26isVLZcWzkOdwVZJZxl5akyviceNzCVWauxV_ft0CLdmlcoFWG2Fqi2Q4_URTSv7O''
     @ js ''ZS-QmcdcAuq3DKJXhOaB3EdkBAs8AW7ijmLyodpJKy4zQ0tGOopVTNoelZT1Irp4FHWgFex-bMbGZ_rm''
     @ js ''SsOzTnnRVKwTTCeDQSdee-MD4_r5bHh-Mmnn0BHy0z2pRYwF8av-Mk4mo3ycd4Pbo5z9EVvOqXD29MNu''
     @ js ''Fhj3mxl1SssYCaMVD1sxWPkyyT4MxkgKePlpra3enZb6KIIvnSysP2tCRqC_5EV_0ATIZZFFWQN31oSc''
     @ js ''lFLaNbbbJqCufwAYg8CouAIAAA''"

definition other_text :: jsstring where
  "other_text =
     json_literal ''{`a`:1}''"

definition other_gz :: "byte list" where
  "other_gz =
     [0x1F, 0x8B, 0x08, 0x00, 0x00, 0x00, 0x00, 0x00, 0x00, 0x03, 0xAB, 0x56, 0x4A, 0x54,
     0xB2, 0x32, 0xAC, 0x05, 0x00, 0xAF, 0xAC, 0x1B, 0x56, 0x07, 0x00, 0x00, 0x00]"

definition other_token :: jsstring where
  "other_token =
     js ''H4sIAAAAAAAAA6tWSlSyMqwFAK-sG1YHAAAA''"

definition loose_text :: jsstring where
  "loose_text =
     json_literal ''{`cardData`:1,`theme`:`x`}''"

definition loose_gz :: "byte list" where
  "loose_gz =
     [0x1F, 0x8B, 0x08, 0x00, 0x00, 0x00, 0x00, 0x00, 0x00, 0x03, 0xAB, 0x56, 0x4A, 0x4E,
     0x2C, 0x4A, 0x71, 0x49, 0x2C, 0x49, 0x54, 0xB2, 0x32, 0xD4, 0x51, 0x2A, 0xC9, 0x48,
     0xCD, 0x4D, 0x55, 0xB2, 0x52, 0xAA, 0x50, 0xAA, 0x05, 0x00, 0x5B, 0xEE, 0xC4, 0x30,
     0x1A, 0x00, 0x00, 0x00]"

definition loose_token :: jsstring where
  "loose_token =
     js ''H4sIAAAAAAAAA6tWSk4sSnFJLElUsjLUUSrJSM1NVbJSqlCqBQBb7sQwGgAAAA''"

definition notjson_gz :: "byte list" where
  "notjson_gz =
     [0x1F, 0x8B, 0x08, 0x00, 0x00, 0x00, 0x00, 0x00, 0x00, 0x03, 0xCB, 0xCB, 0x2F, 0x51,
     0xC8, 0x2A, 0xCE, 0xCF, 0x03, 0x00, 0x66, 0xCB, 0x8C, 0xC6, 0x08, 0x00, 0x00, 0x00]"

definition notjson_token :: jsstring where
  "notjson_token =
     js ''H4sIAAAAAAAAA8vLL1HIKs7PAwBmy4zGCAAAAA''"

definition null_text :: jsstring where
  "null_text =
     json_literal ''null''"

definition null_gz :: "byte list" where
  "null_gz =
     [0x1F, 0x8B, 0x08, 0x00, 0x00, 0x00, 0x00, 0x00, 0x00, 0x03, 0xCB, 0x2B, 0xCD, 0xC9,
     0x01, 0x00, 0x4F, 0xFC, 0xCB, 0x25, 0x04, 0x00, 0x00, 0x00]"

definition null_token :: jsstring where
  "null_token =
     js ''H4sIAAAAAAAAA8srzckBAE_8yyUEAAAA''"

definition json_table :: "(jsvalue \<times> jsstring) list" where
  "json_table =
     [(simplifiedData (sample_card, sample_theme), simplified_text),
      (dataToShare_value (sample_card, sample_theme), full_text),
      (JObj [(js ''a'', JNum (Finite 1))], other_text),
      (JObj [(js ''cardData'', JNum (Finite 1)), (js ''theme'', JStr (js ''x''))], loose_text),
      (JNull, null_text)]"

definition gzip_table :: "(byte list \<times> byte list) list" where
  "gzip_table =
     [(map ucast simplified_text, simplified_gz),
      (map ucast full_text, full_gz),
      (map ucast other_text, other_gz),
      (map ucast loose_text, loose_gz),
      (map ucast null_text, null_gz),
      (map ucast (js ''not json''), notjson_gz)]"

text \<open>
  A platform that agrees with a browser on the samples: \<open>JSON.stringify\<close>, \<open>JSON.parse\<close>
  and the gzip streams are the tables (a text outside the table does not parse, a stream
  outside it does not decompress), UTF-8 is the identity on ASCII, the fetch of a data URL
  decodes base64, the address has at most the one parameter, and sharing and the
  clipboard are available and succeed.
\<close>

definition sample_platform :: platform where
  "sample_platform =
     \<lparr>JSON_stringify = (\<lambda>v. case map_of json_table v of Some t \<Rightarrow> t | None \<Rightarrow> js ''null''),
      JSON_parse = (\<lambda>s. map_of (map (\<lambda>(v, t). (t, v)) json_table) s),
      utf8_encode = map ucast,
      utf8_decode = map ucast,
      gzip = (\<lambda>bs. case map_of gzip_table bs of Some z \<Rightarrow> z | None \<Rightarrow> []),
      gunzip = (\<lambda>z. map_of (map (\<lambda>(bs, z). (z, bs)) gzip_table) z),
      reader_error = (\<lambda>blob. False),
      fetch_data_url =
        (\<lambda>u. if take (length data_url_prefix) u = data_url_prefix
             then b64decode (drop (length data_url_prefix) u) else None),
      URLSearchParams_get =
        (\<lambda>s k. if take (length k + 2) s = 0x3F # k @ [chr_eq]
               then Some (drop (length k + 2) s) else None),
      navigator_share = True,
      navigator_canShare = True,
      canShare = (\<lambda>d. True),
      share_rejects = (\<lambda>d. False),
      clipboard_rejects = (\<lambda>t. False)\<rparr>"

text \<open>
  Two damaged copies of the token of \<^verbatim>\<open>{"a":1}\<close>: one whose fifth character is not a
  base64 character, and one for the stream with its fourteenth byte changed, which fails
  the data check of gzip.
\<close>

definition badchar_token :: jsstring where
  "badchar_token = js ''H4sI*AAAAAAAA6tWSlSyMqwFAK-sG1YHAAAA''"

definition corrupt_gz :: "byte list" where
  "corrupt_gz =
     [0x1F, 0x8B, 0x08, 0x00, 0x00, 0x00, 0x00, 0x00, 0x00, 0x03, 0xAB, 0x56, 0x4A, 0x55,
     0xB2, 0x32, 0xAC, 0x05, 0x00, 0xAF, 0xAC, 0x1B, 0x56, 0x07, 0x00, 0x00, 0x00]"

definition corrupt_token :: jsstring where
  "corrupt_token = js ''H4sIAAAAAAAAA6tWSlWyMqwFAK-sG1YHAAAA''"

text \<open>The sample state on a page whose path alone is longer than 2000 characters.\<close>

definition long_state :: AppState where
  "long_state =
     sample_state\<lparr>location := (location sample_state)\<lparr>pathname := 0x2F # replicate 2000 0x70\<rparr>\<rparr>"

text \<open>The sample state opened with the address \<open>?card=tok\<close>.\<close>

definition opened_with :: "jsstring \<Rightarrow> AppState" where
  "opened_with tok =
     sample_state\<lparr>location := (location sample_state)\<lparr>search := query_card @ tok\<rparr>\<rparr>"

section \<open>The contract of the platform's codecs\<close>

text \<open>
  What the round trip of a value \<open>p\<close> asks of the platform: the reader does not fail on
  the compressed blob, the fetch of the data URL of the blob's base64 decodes that base64,
  decompression restores the bytes that were compressed, and the JSON text of \<open>p\<close>,
  written as UTF-8 and read back, parses to \<open>p\<close>.
\<close>

definition codec_contract :: "platform \<Rightarrow> jsvalue \<Rightarrow> bool" where
  "codec_contract pf p =
     (let jsonString = JSON_stringify pf p;
          bytes = utf8_encode pf jsonString;
          compressedBlob = gzip pf bytes
      in \<not> reader_error pf compressedBlob \<and>
         fetch_data_url pf (data_url_prefix @ b64encode compressedBlob) =
           b64decode (b64encode compressedBlob) \<and>
         gunzip pf compressedBlob = Some bytes \<and>
         JSON_parse pf (utf8_decode pf bytes) = Some p)"

section \<open>Auxiliary notions of the statements\<close>

text \<open>
  The state in which \<open>initializeApp\<close> leaves a rejected link: the error logged, the notice
  shown, the query removed from the address, and the two resets of every start-up.
\<close>

definition reported :: "error \<Rightarrow> AppState \<Rightarrow> AppState" where
  "reported e st =
     st\<lparr>currentUser := None, isAdmin := False,
        location := (location st)\<lparr>search := []\<rparr>,
        effects := effects st @
          [ConsoleError (js ''Failed to process shared card data:'') e,
           Alert (js ''The shared card link seems to be invalid or corrupted.''),
           ReplaceState (pathname (location st))]\<rparr>"

text \<open>The property names of the \<open>cardData\<close> of a payload.\<close>

definition cardData_keys :: "jsvalue \<Rightarrow> jsstring list" where
  "cardData_keys v =
     (case getProp v (js ''cardData'') of Inr (Some c) \<Rightarrow> keys c | _ \<Rightarrow> [])"

section \<open>Facts about the transforms\<close>

lemma replaceAll_char: "replaceAll c [d] s = map (\<lambda>x. if x = c then d else x) s"
  by (induction s) (simp_all add: replaceAll_def)

lemma replaceAll_empty: "replaceAll c [] s = filter (\<lambda>x. x \<noteq> c) s"
  by (induction s) (simp_all add: replaceAll_def)

lemma mod4_cases: "(n::nat) mod 4 = 0 \<or> n mod 4 = 1 \<or> n mod 4 = 2 \<or> n mod 4 = 3"
proof -
  have "n mod 4 < 4" by simp
  then show ?thesis by linarith
qed

lemma pad_count_le: "(4 - (n::nat) mod 4) mod 4 \<le> 3"
  using mod4_cases [of n] by (elim disjE) simp_all

lemma pad_count_sum: "((n::nat) + (4 - n mod 4) mod 4) mod 4 = 0"
proof -
  have "(n + (4 - n mod 4) mod 4) mod 4 = (n mod 4 + (4 - n mod 4) mod 4) mod 4"
    by (simp add: mod_add_left_eq)
  also have "\<dots> = 0"
    using mod4_cases [of n] by (elim disjE) simp_all
  finally show ?thesis .
qed

lemma pad_loop_eq:
  "pad_loop b = b @ replicate ((4 - length b mod 4) mod 4) chr_eq"
proof (induction b rule: pad_loop.induct)
  case (1 b)
  show ?case
  proof (cases "length b mod 4 = 0")
    case True
    then show ?thesis by (simp add: pad_loop.simps [of b])
  next
    case False
    then have step: "pad_loop b = pad_loop (b @ [chr_eq])"
      by (simp add: pad_loop.simps [of b])
    have m: "length b mod 4 = 1 \<or> length b mod 4 = 2 \<or> length b mod 4 = 3"
      using False mod4_cases [of "length b"] by simp
    have n: "(4 - length b mod 4) mod 4 = Suc ((4 - Suc (length b) mod 4) mod 4)"
      using m by (elim disjE) (simp_all add: mod_Suc)
    have "pad_loop (b @ [chr_eq]) =
            (b @ [chr_eq]) @ replicate ((4 - Suc (length b) mod 4) mod 4) chr_eq"
      using "1.IH" [OF False] by simp
    also have "\<dots> = b @ replicate (Suc ((4 - Suc (length b) mod 4) mod 4)) chr_eq"
      by simp
    finally show ?thesis by (simp only: step n)
  qed
qed

lemma pad_loop_length: "length (pad_loop b) mod 4 = 0"
  by (simp add: pad_loop_eq pad_count_sum)

lemma fromUrlSafeBase64_eq:
  "fromUrlSafeBase64 s =
     map (\<lambda>x. if x = chr_underscore then chr_slash else x)
       (map (\<lambda>x. if x = chr_minus then chr_plus else x) s)
     @ replicate ((4 - length s mod 4) mod 4) chr_eq"
  by (simp add: fromUrlSafeBase64_def replaceAll_char pad_loop_eq)

lemma toUrlSafeBase64_eq:
  "toUrlSafeBase64 b =
     filter (\<lambda>x. x \<noteq> chr_eq)
       (map (\<lambda>x. if x = chr_slash then chr_underscore else x)
         (map (\<lambda>x. if x = chr_plus then chr_minus else x) b))"
  by (simp add: toUrlSafeBase64_def replaceAll_char replaceAll_empty)

lemma chr_distinct:
  "chr_plus \<noteq> chr_minus" "chr_plus \<noteq> chr_underscore" "chr_plus \<noteq> chr_eq"
  "chr_plus \<noteq> chr_slash" "chr_slash \<noteq> chr_minus" "chr_slash \<noteq> chr_underscore"
  "chr_slash \<noteq> chr_eq" "chr_eq \<noteq> chr_minus" "chr_eq \<noteq> chr_underscore"
  "chr_minus \<noteq> chr_underscore"
  by (simp_all add: chr_plus_def chr_minus_def chr_underscore_def chr_eq_def chr_slash_def)

lemma b64chars_length: "length b64chars = 64"
  by (simp add: b64chars_def js_def)

lemma b64_char_not_safe:
  "is_b64_char c \<Longrightarrow> c \<noteq> chr_minus \<and> c \<noteq> chr_underscore \<and> c \<noteq> chr_eq"
  by (auto simp: is_b64_char_def b64chars_def js_def chr_minus_def chr_underscore_def
      chr_eq_def)

lemma pad_count_inverse:
  assumes "(n + k) mod 4 = 0" "k \<le> 2"
  shows "(4 - (n::nat) mod 4) mod 4 = k"
proof -
  have k: "k = 0 \<or> k = 1 \<or> k = 2" using assms(2) by linarith
  have "(n mod 4 + k) mod 4 = 0" using assms(1) by (simp add: mod_add_left_eq)
  then show ?thesis
    using mod4_cases [of n] k by (elim disjE) simp_all
qed

lemma unsafe_safe_char:
  assumes "is_b64_char c"
  shows "(\<lambda>x. if x = chr_underscore then chr_slash else x)
           ((\<lambda>x. if x = chr_minus then chr_plus else x)
             ((\<lambda>x. if x = chr_slash then chr_underscore else x)
               ((\<lambda>x. if x = chr_plus then chr_minus else x) c))) = c"
  using b64_char_not_safe [OF assms] chr_distinct by auto

lemma safe_char_eq:
  "((\<lambda>x. if x = chr_slash then chr_underscore else x)
      ((\<lambda>x. if x = chr_plus then chr_minus else x) c) = chr_eq) = (c = chr_eq)"
  using chr_distinct by auto

lemma toUrlSafeBase64_filter:
  "toUrlSafeBase64 b =
     map (\<lambda>x. if x = chr_slash then chr_underscore else x)
       (map (\<lambda>x. if x = chr_plus then chr_minus else x)
         (filter (\<lambda>x. x \<noteq> chr_eq) b))"
  by (induction b) (simp_all add: toUrlSafeBase64_eq safe_char_eq)

lemma valid_base64_split:
  assumes "valid_base64 b"
  obtains body k where "b = body @ replicate k chr_eq" "list_all is_b64_char body"
    "k \<le> 2" "(length body + k) mod 4 = 0"
proof -
  let ?body = "takeWhile (\<lambda>c. c \<noteq> chr_eq) b"
  let ?pad = "dropWhile (\<lambda>c. c \<noteq> chr_eq) b"
  from assms have a: "list_all is_b64_char ?body" "list_all (\<lambda>c. c = chr_eq) ?pad"
    "length ?pad \<le> 2" "length b mod 4 = 0"
    by (simp_all add: valid_base64_def Let_def)
  have "\<forall>y\<in>set ?pad. y = chr_eq" using a(2) by (simp only: list_all_iff)
  then have p: "?pad = replicate (length ?pad) chr_eq"
    by (rule replicate_length_same [symmetric])
  have "b = ?body @ ?pad" by simp
  then have b: "b = ?body @ replicate (length ?pad) chr_eq" using p by simp
  have "length b = length ?body + length ?pad"
    by (metis length_append takeWhile_dropWhile_id)
  then have "(length ?body + length ?pad) mod 4 = 0" using a(4) by simp
  then show ?thesis using that [OF b a(1) a(3)] by simp
qed

lemma filter_body:
  assumes "list_all is_b64_char body"
  shows "filter (\<lambda>x. x \<noteq> chr_eq) (body @ replicate k chr_eq) = body"
proof -
  have "\<forall>x\<in>set body. x \<noteq> chr_eq"
    using assms b64_char_not_safe by (auto simp: list_all_iff)
  then show ?thesis by simp
qed

lemma unsafe_safe_body:
  assumes "list_all is_b64_char body"
  shows "map (\<lambda>x. if x = chr_underscore then chr_slash else x)
       (map (\<lambda>x. if x = chr_minus then chr_plus else x)
        (map (\<lambda>x. if x = chr_slash then chr_underscore else x)
         (map (\<lambda>x. if x = chr_plus then chr_minus else x) body))) = body"
  using assms
proof (induction body)
  case Nil
  then show ?case by simp
next
  case (Cons c cs)
  then have "is_b64_char c" by simp
  from unsafe_safe_char [OF this] Cons show ?case by simp
qed

lemma toUrlSafeBase64_valid:
  assumes "b = body @ replicate k chr_eq" "list_all is_b64_char body"
  shows "toUrlSafeBase64 b =
      map (\<lambda>x. if x = chr_slash then chr_underscore else x)
       (map (\<lambda>x. if x = chr_plus then chr_minus else x) body)"
  by (simp only: toUrlSafeBase64_filter assms(1) filter_body [OF assms(2)])

lemma from_to_valid:
  assumes "valid_base64 b"
  shows "fromUrlSafeBase64 (toUrlSafeBase64 b) = b"
proof -
  from assms obtain body k where b: "b = body @ replicate k chr_eq"
    and body: "list_all is_b64_char body" and k: "k \<le> 2"
    and len: "(length body + k) mod 4 = 0"
    by (rule valid_base64_split)
  have "fromUrlSafeBase64 (toUrlSafeBase64 b) =
          body @ replicate ((4 - length body mod 4) mod 4) chr_eq"
    by (simp only: toUrlSafeBase64_valid [OF b body] fromUrlSafeBase64_eq
        unsafe_safe_body [OF body] length_map)
  then show ?thesis using pad_count_inverse [OF len k] b by simp
qed

lemma token_length_valid:
  assumes "valid_base64 b"
  shows "length (toUrlSafeBase64 b) mod 4 \<noteq> 1"
proof -
  from assms obtain body k where b: "b = body @ replicate k chr_eq"
    and body: "list_all is_b64_char body" and k: "k \<le> 2"
    and len: "(length body + k) mod 4 = 0"
    by (rule valid_base64_split)
  have l: "length (toUrlSafeBase64 b) = length body"
    by (simp add: toUrlSafeBase64_valid [OF b body])
  have k': "k = 0 \<or> k = 1 \<or> k = 2" using k by linarith
  have "(length body mod 4 + k) mod 4 = 0" using len by (simp add: mod_add_left_eq)
  then have "length body mod 4 \<noteq> 1"
    using mod4_cases [of "length body"] k' by (elim disjE) simp_all
  then show ?thesis using l by simp
qed

lemma replicate_2: "replicate 2 x = [x, x]"
  by (simp add: numeral_2_eq_2)

lemma replicate_3: "replicate 3 x = [x, x, x]"
  by (simp add: numeral_3_eq_3)

subsection \<open>Base64\<close>

lemma byte_less: "unat (a::byte) < 256"
  using unsigned_less [of a] by simp

lemma index_of_nth: "distinct xs \<Longrightarrow> n < length xs \<Longrightarrow> index_of (xs ! n) xs = Some n"
proof (induction xs arbitrary: n)
  case Nil
  then show ?case by simp
next
  case (Cons x xs)
  show ?case
  proof (cases n)
    case 0
    then show ?thesis by simp
  next
    case (Suc m)
    with Cons.prems have m: "m < length xs" and d: "distinct xs" and x: "x \<notin> set xs"
      by simp_all
    from m x have "xs ! m \<noteq> x" using nth_mem by metis
    with Cons.IH [OF d m] Suc show ?thesis by simp
  qed
qed

lemma b64chars_distinct: "distinct b64chars"
  by (simp add: b64chars_def js_def)

lemma b64index_b64char: "n < 64 \<Longrightarrow> b64index (b64char n) = Some n"
  by (simp add: b64index_def b64char_def index_of_nth b64chars_distinct b64chars_length)

lemma b64char_is: "n < 64 \<Longrightarrow> is_b64_char (b64char n)"
  by (simp add: is_b64_char_def b64char_def b64chars_length)

lemma b64char_not_eq: "n < 64 \<Longrightarrow> b64char n \<noteq> chr_eq"
  using b64_char_not_safe [OF b64char_is] by simp

lemma join1: "b < 256 \<Longrightarrow> (a::nat) div 4 * 4 + (a mod 4 * 16 + b div 16) div 16 = a"
proof -
  assume "b < 256"
  then have "b div 16 < 16" by simp
  then have "(a mod 4 * 16 + b div 16) div 16 = a mod 4" by simp
  then show ?thesis by simp
qed

lemma join1': "(a::nat) div 4 * 4 + (a mod 4 * 16) div 16 = a"
  by simp

lemma join2: "b < 256 \<Longrightarrow> c < 256 \<Longrightarrow>
   ((a::nat) mod 4 * 16 + b div 16) mod 16 * 16 + (b mod 16 * 4 + c div 64) div 4 = b"
proof -
  assume "b < 256" "c < 256"
  then have 1: "b div 16 < 16" and 2: "c div 64 < 4" by simp_all
  from 1 have "(a mod 4 * 16 + b div 16) mod 16 = b div 16" by simp
  moreover from 2 have "(b mod 16 * 4 + c div 64) div 4 = b mod 16" by simp
  ultimately show ?thesis by simp
qed

lemma join2': "b < 256 \<Longrightarrow>
   ((a::nat) mod 4 * 16 + b div 16) mod 16 * 16 + (b mod 16 * 4) div 4 = b"
proof -
  assume "b < 256"
  then have 1: "b div 16 < 16" by simp
  from 1 have "(a mod 4 * 16 + b div 16) mod 16 = b div 16" by simp
  then show ?thesis by simp
qed

lemma join3: "c < 256 \<Longrightarrow> ((b::nat) mod 16 * 4 + c div 64) mod 4 * 64 + c mod 64 = c"
proof -
  assume "c < 256"
  then have 2: "c div 64 < 4" by simp
  then have "(b mod 16 * 4 + c div 64) mod 4 = c div 64" by simp
  then show ?thesis by simp
qed

lemma sextet1: "unat (a::byte) div 4 < 64"
  using byte_less [of a] by simp

lemma sextet2: "unat (a::byte) mod 4 * 16 + unat (b::byte) div 16 < 64"
proof -
  have "unat a mod 4 < 4" by simp
  then have "unat a mod 4 \<le> 3" by linarith
  then have "unat a mod 4 * 16 \<le> 48" by simp
  moreover have "unat b div 16 < 16" using byte_less [of b] by simp
  ultimately show ?thesis by linarith
qed

lemma sextet2': "unat (a::byte) mod 4 * 16 < 64"
proof -
  have "unat a mod 4 < 4" by simp
  then have "unat a mod 4 \<le> 3" by linarith
  then have "unat a mod 4 * 16 \<le> 48" by simp
  then show ?thesis by linarith
qed

lemma sextet3: "unat (b::byte) mod 16 * 4 + unat (c::byte) div 64 < 64"
proof -
  have "unat b mod 16 < 16" by simp
  then have "unat b mod 16 \<le> 15" by linarith
  then have "unat b mod 16 * 4 \<le> 60" by simp
  moreover have "unat c div 64 < 4" using byte_less [of c] by simp
  ultimately show ?thesis by linarith
qed

lemma sextet3': "unat (b::byte) mod 16 * 4 < 64"
proof -
  have "unat b mod 16 < 16" by simp
  then have "unat b mod 16 \<le> 15" by linarith
  then have "unat b mod 16 * 4 \<le> 60" by simp
  then show ?thesis by linarith
qed

lemma sextet4: "unat (c::byte) mod 64 < 64"
  by simp

lemmas sextets = sextet1 sextet2 sextet2' sextet3 sextet3' sextet4

lemma of_nat_unat_byte: "of_nat (unat (a::byte)) = a"
  by simp

lemma b64decode_pad2:
  "b64decode [b64char (unat a div 4), b64char (unat a mod 4 * 16), chr_eq, chr_eq] = Some [a]"
proof -
  have i1: "b64index (b64char (unat a div 4)) = Some (unat a div 4)"
    by (rule b64index_b64char [OF sextet1])
  have i2: "b64index (b64char (unat a mod 4 * 16)) = Some (unat a mod 4 * 16)"
    by (rule b64index_b64char [OF sextet2'])
  show ?thesis
    by (simp only: b64decode.simps i1 i2 prod.case option.case simp_thms if_True
        join1' of_nat_unat_byte)
qed

lemma b64decode_pad1:
  "b64decode [b64char (unat a div 4), b64char (unat a mod 4 * 16 + unat b div 16),
      b64char (unat b mod 16 * 4), chr_eq] = Some [a, b]"
proof -
  have i1: "b64index (b64char (unat a div 4)) = Some (unat a div 4)"
    by (rule b64index_b64char [OF sextet1])
  have i2: "b64index (b64char (unat a mod 4 * 16 + unat b div 16)) =
              Some (unat a mod 4 * 16 + unat b div 16)"
    by (rule b64index_b64char [OF sextet2])
  have i3: "b64index (b64char (unat b mod 16 * 4)) = Some (unat b mod 16 * 4)"
    by (rule b64index_b64char [OF sextet3'])
  have e3: "(b64char (unat b mod 16 * 4) = chr_eq) = False"
    using b64char_not_eq [OF sextet3'] by simp
  show ?thesis
    by (simp only: b64decode.simps i1 i2 i3 e3 prod.case option.case simp_thms if_True
        if_False join1 [OF byte_less] join2' [OF byte_less] of_nat_unat_byte)
qed

lemma b64decode_group:
  assumes "b64decode r = Some bs"
  shows "b64decode ([b64char (unat a div 4), b64char (unat a mod 4 * 16 + unat b div 16),
      b64char (unat b mod 16 * 4 + unat c div 64), b64char (unat c mod 64)] @ r)
     = Some (a # b # c # bs)"
proof -
  have i1: "b64index (b64char (unat a div 4)) = Some (unat a div 4)"
    by (rule b64index_b64char [OF sextet1])
  have i2: "b64index (b64char (unat a mod 4 * 16 + unat b div 16)) =
              Some (unat a mod 4 * 16 + unat b div 16)"
    by (rule b64index_b64char [OF sextet2])
  have i3: "b64index (b64char (unat b mod 16 * 4 + unat c div 64)) =
              Some (unat b mod 16 * 4 + unat c div 64)"
    by (rule b64index_b64char [OF sextet3])
  have i4: "b64index (b64char (unat c mod 64)) = Some (unat c mod 64)"
    by (rule b64index_b64char [OF sextet4])
  have e3: "(b64char (unat b mod 16 * 4 + unat c div 64) = chr_eq) = False"
    using b64char_not_eq [OF sextet3] by simp
  have e4: "(b64char (unat c mod 64) = chr_eq) = False"
    using b64char_not_eq [OF sextet4] by simp
  show ?thesis
    by (simp only: append_Cons append_Nil b64decode.simps i1 i2 i3 i4 e3 e4 assms prod.case
        option.case simp_thms if_True if_False join1 [OF byte_less]
        join2 [OF byte_less byte_less] join3 [OF byte_less] of_nat_unat_byte)
qed

lemma b64decode_b64encode: "b64decode (b64encode bs) = Some bs"
proof (induction bs rule: b64encode.induct)
  case 1
  show ?case by simp
next
  case (2 a)
  show ?case by (simp only: b64encode.simps b64decode_pad2)
next
  case (3 a b)
  show ?case by (simp only: b64encode.simps b64decode_pad1)
next
  case (4 a b c rest)
  show ?case by (simp only: b64encode.simps b64decode_group [OF 4])
qed

lemma valid_base64_Nil: "valid_base64 []"
  by (simp add: valid_base64_def)

lemma valid_base64_pad2:
  "is_b64_char x \<Longrightarrow> is_b64_char y \<Longrightarrow> valid_base64 [x, y, chr_eq, chr_eq]"
  using b64_char_not_safe [of x] b64_char_not_safe [of y]
  by (simp add: valid_base64_def)

lemma valid_base64_pad1:
  "is_b64_char x \<Longrightarrow> is_b64_char y \<Longrightarrow> is_b64_char z \<Longrightarrow> valid_base64 [x, y, z, chr_eq]"
  using b64_char_not_safe [of x] b64_char_not_safe [of y] b64_char_not_safe [of z]
  by (simp add: valid_base64_def)

lemma valid_base64_group:
  assumes "is_b64_char x" "is_b64_char y" "is_b64_char z" "is_b64_char w" "valid_base64 r"
  shows "valid_base64 ([x, y, z, w] @ r)"
  using assms b64_char_not_safe [of x] b64_char_not_safe [of y] b64_char_not_safe [of z]
    b64_char_not_safe [of w]
  by (simp add: valid_base64_def Let_def)

lemma b64encode_valid: "valid_base64 (b64encode bs)"
proof (induction bs rule: b64encode.induct)
  case 1
  show ?case by (simp add: valid_base64_Nil)
next
  case (2 a)
  show ?case
    by (simp only: b64encode.simps) (rule valid_base64_pad2; rule b64char_is; rule sextets)
next
  case (3 a b)
  show ?case
    by (simp only: b64encode.simps) (rule valid_base64_pad1; rule b64char_is; rule sextets)
next
  case (4 a b c rest)
  show ?case
    apply (simp only: b64encode.simps)
    apply (rule valid_base64_group)
        apply (rule b64char_is, rule sextets)+
    apply (rule 4)
    done
qed

lemma valid_base64_chars:
  assumes "valid_base64 b"
  shows "set b \<subseteq> insert chr_eq (set b64chars)"
proof -
  from assms obtain body k where b: "b = body @ replicate k chr_eq"
    and body: "list_all is_b64_char body"
    by (rule valid_base64_split)
  then show ?thesis by (auto simp: list_all_iff is_b64_char_def)
qed

lemma comma_not_b64: "chr_comma \<notin> insert chr_eq (set b64chars)"
  by (simp add: chr_comma_def chr_eq_def b64chars_def js_def)

lemma b64encode_no_comma: "chr_comma \<notin> set (b64encode bs)"
  using valid_base64_chars [OF b64encode_valid, of bs] comma_not_b64 by blast

lemma split_on_none: "c \<notin> set s \<Longrightarrow> split_on c s = [s]"
  by (induction s) auto

lemma split_on_first: "c \<notin> set p \<Longrightarrow> split_on c (p @ c # s) = p # split_on c s"
  by (induction p) auto

lemma data_url_prefix_comma:
  "data_url_prefix = js ''data:application/octet-stream;base64'' @ [chr_comma] \<and>
   chr_comma \<notin> set (js ''data:application/octet-stream;base64'')"
  by (simp add: data_url_prefix_def js_def chr_comma_def)

lemma split_data_url:
  assumes "chr_comma \<notin> set b"
  shows "at_index (split_limit chr_comma 2 (data_url_prefix @ b)) 1 = Some b"
proof -
  let ?p = "js ''data:application/octet-stream;base64''"
  have p: "data_url_prefix = ?p @ [chr_comma]" and n: "chr_comma \<notin> set ?p"
    using data_url_prefix_comma by simp_all
  have "split_on chr_comma (data_url_prefix @ b) = split_on chr_comma (?p @ chr_comma # b)"
    by (simp only: p append_assoc append_Cons append_Nil)
  also have "\<dots> = ?p # split_on chr_comma b" by (rule split_on_first [OF n])
  also have "\<dots> = [?p, b]" by (simp only: split_on_none [OF assms])
  finally have "split_limit chr_comma 2 (data_url_prefix @ b) = take 2 [?p, b]"
    by (simp only: split_limit_def)
  then show ?thesis by (simp add: at_index_def)
qed

lemma split_data_url_b64:
  "at_index (split_limit chr_comma 2 (data_url_prefix @ b64encode bs)) (Suc 0) =
     Some (b64encode bs)"
  using split_data_url [OF b64encode_no_comma, of bs] by simp

lemma compressAndEncode_eq:
  "compressAndEncode pf p =
     (if reader_error pf (gzip pf (utf8_encode pf (JSON_stringify pf p)))
      then Inl ProgressEvent
      else Inr (Some (b64encode (gzip pf (utf8_encode pf (JSON_stringify pf p))))))"
  by (simp add: compressAndEncode_def readAsDataURL_def Let_def split_data_url_b64)

lemma Encode_eq:
  "Encode pf p =
     (if reader_error pf (gzip pf (utf8_encode pf (JSON_stringify pf p)))
      then Inl ProgressEvent
      else Inr (toUrlSafeBase64 (b64encode (gzip pf (utf8_encode pf (JSON_stringify pf p))))))"
  by (simp add: Encode_def compressAndEncode_eq)

lemma Decode_token:
  "Decode pf (toUrlSafeBase64 (b64encode z)) = decodeAndDecompress pf (b64encode z)"
  by (simp add: Decode_def from_to_valid [OF b64encode_valid])

subsection \<open>The sample browser\<close>

lemma b64chars_eval:
  "b64chars =
    [0x41, 0x42, 0x43, 0x44, 0x45, 0x46, 0x47, 0x48, 0x49, 0x4A, 0x4B, 0x4C,
     0x4D, 0x4E, 0x4F, 0x50, 0x51, 0x52, 0x53, 0x54, 0x55, 0x56, 0x57, 0x58,
     0x59, 0x5A, 0x61, 0x62, 0x63, 0x64, 0x65, 0x66, 0x67, 0x68, 0x69, 0x6A,
     0x6B, 0x6C, 0x6D, 0x6E, 0x6F, 0x70, 0x71, 0x72, 0x73, 0x74, 0x75, 0x76,
     0x77, 0x78, 0x79, 0x7A, 0x30, 0x31, 0x32, 0x33, 0x34, 0x35, 0x36, 0x37,
     0x38, 0x39, 0x2B, 0x2F]"
  by (simp add: b64chars_def js_def)

lemmas token_eval =
  toUrlSafeBase64_eq b64char_def b64chars_eval js_def chr_eq_def chr_minus_def
  chr_plus_def chr_underscore_def chr_slash_def

lemma token_simplified: "toUrlSafeBase64 (b64encode simplified_gz) = simplified_token"
  by (simp add: simplified_gz_def simplified_token_def token_eval)

lemma token_full: "toUrlSafeBase64 (b64encode full_gz) = full_token"
  by (simp add: full_gz_def full_token_def token_eval)

lemma token_other: "toUrlSafeBase64 (b64encode other_gz) = other_token"
  by (simp add: other_gz_def other_token_def token_eval)

lemma token_loose: "toUrlSafeBase64 (b64encode loose_gz) = loose_token"
  by (simp add: loose_gz_def loose_token_def token_eval)

lemma token_notjson: "toUrlSafeBase64 (b64encode notjson_gz) = notjson_token"
  by (simp add: notjson_gz_def notjson_token_def token_eval)

lemma token_null: "toUrlSafeBase64 (b64encode null_gz) = null_token"
  by (simp add: null_gz_def null_token_def token_eval)

lemma token_corrupt: "toUrlSafeBase64 (b64encode corrupt_gz) = corrupt_token"
  by (simp add: corrupt_gz_def corrupt_token_def token_eval)

lemma sample_fields:
  "reader_error sample_platform blob = False"
  "utf8_encode sample_platform = map ucast"
  "utf8_decode sample_platform = map ucast"
  "fetch_data_url sample_platform (data_url_prefix @ b) = b64decode b"
  "navigator_share sample_platform" "navigator_canShare sample_platform"
  "canShare sample_platform d" "\<not> share_rejects sample_platform d"
  "\<not> clipboard_rejects sample_platform t"
  by (simp_all add: sample_platform_def)

lemma URLSearchParams_get_sample:
  "URLSearchParams_get sample_platform (query_card @ tok) (js ''card'') = Some tok"
  by (simp add: sample_platform_def query_card_def js_def chr_eq_def)

lemma stringify_simplified:
  "JSON_stringify sample_platform (simplifiedData (sample_card, sample_theme)) = simplified_text"
  by (simp add: sample_platform_def json_table_def)

lemma stringify_full:
  "JSON_stringify sample_platform (dataToShare_value (sample_card, sample_theme)) = full_text"
  by (simp add: sample_platform_def json_table_def simplifiedData_def dataToShare_value_def
      BusinessCardData_value_def js_def)

lemma gzip_simplified: "gzip sample_platform (map ucast simplified_text) = simplified_gz"
  by (simp add: sample_platform_def gzip_table_def)

lemma texts_differ: "map ucast simplified_text \<noteq> (map ucast full_text :: byte list)"
  by (simp add: simplified_text_def full_text_def json_literal_def)

lemma gzip_full: "gzip sample_platform (map ucast full_text) = full_gz"
  using texts_differ by (simp add: sample_platform_def gzip_table_def)

lemma Decode_sample:
  "Decode sample_platform (toUrlSafeBase64 (b64encode z)) =
     (case gunzip sample_platform z of
        None \<Rightarrow> Inl TypeError
      | Some bs \<Rightarrow>
          (case JSON_parse sample_platform (map ucast bs) of
             None \<Rightarrow> Inl SyntaxError
           | Some v \<Rightarrow> Inr v))"
  by (simp add: Decode_token decodeAndDecompress_def sample_fields b64decode_b64encode
      split: option.splits)

lemmas sample_gz_defs =
  simplified_gz_def full_gz_def other_gz_def loose_gz_def null_gz_def notjson_gz_def
  corrupt_gz_def

lemmas sample_text_defs =
  simplified_text_def full_text_def other_text_def loose_text_def null_text_def
  json_literal_def js_def

lemma gunzip_sample:
  "gunzip sample_platform simplified_gz = Some (map ucast simplified_text)"
  "gunzip sample_platform other_gz = Some (map ucast other_text)"
  "gunzip sample_platform loose_gz = Some (map ucast loose_text)"
  "gunzip sample_platform null_gz = Some (map ucast null_text)"
  "gunzip sample_platform notjson_gz = Some (map ucast (js ''not json''))"
  "gunzip sample_platform corrupt_gz = None"
  by (simp_all add: sample_platform_def gzip_table_def sample_gz_defs)

lemma parse_sample:
  "JSON_parse sample_platform (map ucast (map ucast simplified_text :: byte list)) =
     Some (simplifiedData (sample_card, sample_theme))"
  "JSON_parse sample_platform (map ucast (map ucast other_text :: byte list)) =
     Some (JObj [(js ''a'', JNum (Finite 1))])"
  "JSON_parse sample_platform (map ucast (map ucast loose_text :: byte list)) =
     Some (JObj [(js ''cardData'', JNum (Finite 1)), (js ''theme'', JStr (js ''x''))])"
  "JSON_parse sample_platform (map ucast (map ucast null_text :: byte list)) = Some JNull"
  "JSON_parse sample_platform (map ucast (map ucast (js ''not json'') :: byte list)) = None"
  by (simp_all add: sample_platform_def json_table_def sample_text_defs)

lemma Decode_simplified:
  "Decode sample_platform simplified_token = Inr (simplifiedData (sample_card, sample_theme))"
  using Decode_sample [of simplified_gz]
  by (simp only: token_simplified gunzip_sample parse_sample option.case)

lemma Decode_other:
  "Decode sample_platform other_token = Inr (JObj [(js ''a'', JNum (Finite 1))])"
  using Decode_sample [of other_gz]
  by (simp only: token_other gunzip_sample parse_sample option.case)

lemma Decode_loose:
  "Decode sample_platform loose_token =
     Inr (JObj [(js ''cardData'', JNum (Finite 1)), (js ''theme'', JStr (js ''x''))])"
  using Decode_sample [of loose_gz]
  by (simp only: token_loose gunzip_sample parse_sample option.case)

lemma Decode_notjson: "Decode sample_platform notjson_token = Inl SyntaxError"
  using Decode_sample [of notjson_gz]
  by (simp only: token_notjson gunzip_sample parse_sample option.case)

lemma Decode_corrupt: "Decode sample_platform corrupt_token = Inl TypeError"
  using Decode_sample [of corrupt_gz]
  by (simp only: token_corrupt gunzip_sample option.case)

lemma Decode_null: "Decode sample_platform null_token = Inr JNull"
  using Decode_sample [of null_gz]
  by (simp only: token_null gunzip_sample parse_sample option.case)

lemma b64decode_bad_group:
  "b64index c1 = None \<Longrightarrow> b64decode (c1 # c2 # c3 # c4 # rest) = None"
  by simp

lemma b64decode_bad_rest:
  "b64decode rest = None \<Longrightarrow> rest \<noteq> [] \<Longrightarrow> b64decode (c1 # c2 # c3 # c4 # rest) = None"
  by (simp split: option.splits)

lemma b64index_star: "b64index 42 = None"
  by (simp add: b64index_def b64chars_eval)

lemma b64decode_badchar: "b64decode (fromUrlSafeBase64 badchar_token) = None"
proof -
  have f: "fromUrlSafeBase64 badchar_token =
             72 # 52 # 115 # 73 # 42 # 65 # 65 # 65 # js ''AAAAA6tWSlSyMqwFAK+sG1YHAAAA''"
    by (simp add: badchar_token_def fromUrlSafeBase64_eq js_def chr_eq_def chr_minus_def
        chr_plus_def chr_underscore_def chr_slash_def)
  show ?thesis
    by (simp only: f)
      (rule b64decode_bad_rest, rule b64decode_bad_group, rule b64index_star, simp)
qed

lemma Decode_badchar: "Decode sample_platform badchar_token = Inl TypeError"
  using b64decode_badchar by (simp add: Decode_def decodeAndDecompress_def sample_fields)

lemma Encode_simplified:
  "Encode sample_platform (simplifiedData (sample_card, sample_theme)) = Inr simplified_token"
  by (simp add: Encode_eq sample_fields stringify_simplified gzip_simplified token_simplified)

lemma Encode_full:
  "Encode sample_platform (dataToShare_value (sample_card, sample_theme)) = Inr full_token"
  by (simp add: Encode_eq sample_fields stringify_full gzip_full token_full)

lemma codec_roundtrip:
  assumes "codec_contract pf p"
  shows "Encode pf p = Inr (toUrlSafeBase64 (b64encode (gzip pf (utf8_encode pf (JSON_stringify pf p)))))"
    and "Decode pf (toUrlSafeBase64 (b64encode (gzip pf (utf8_encode pf (JSON_stringify pf p))))) = Inr p"
proof -
  let ?bytes = "utf8_encode pf (JSON_stringify pf p)"
  let ?z = "gzip pf ?bytes"
  from assms have r: "\<not> reader_error pf ?z"
    and f: "fetch_data_url pf (data_url_prefix @ b64encode ?z) = b64decode (b64encode ?z)"
    and g: "gunzip pf ?z = Some ?bytes"
    and j: "JSON_parse pf (utf8_decode pf ?bytes) = Some p"
    by (simp_all add: codec_contract_def Let_def)
  from r show "Encode pf p = Inr (toUrlSafeBase64 (b64encode ?z))"
    by (simp add: Encode_eq)
  show "Decode pf (toUrlSafeBase64 (b64encode ?z)) = Inr p"
    by (simp add: Decode_token decodeAndDecompress_def f b64decode_b64encode g j)
qed

lemma contract_sample:
  "codec_contract sample_platform (simplifiedData (sample_card, sample_theme))"
  by (simp only: codec_contract_def Let_def sample_fields stringify_simplified
      gzip_simplified b64decode_b64encode gunzip_sample parse_sample simp_thms)

subsection \<open>The page-load handler and the sharing handlers\<close>

lemma initializeApp_thrown:
  assumes "URLSearchParams_get pf (search (location st)) (js ''card'') = Some tok" "tok \<noteq> []"
    and "initializeApp_try pf tok st = (Some e, st)"
  shows "initializeApp pf st = reported e st"
  using assms by (simp add: initializeApp_def reported_def replaceState_def emit_def)

lemma try_decode_error:
  "Decode pf tok = Inl e \<Longrightarrow> initializeApp_try pf tok st = (Some e, st)"
  by (simp add: initializeApp_try_def)

lemma try_structure_error:
  assumes "Decode pf tok = Inr data" "cardData_and_theme data \<noteq> Inr True"
  shows "\<exists>e. initializeApp_try pf tok st = (Some e, st) \<and>
           (e = TypeError \<or> e = Error (js ''Invalid card data structure''))"
proof (cases "cardData_and_theme data")
  case (Inl e)
  then have "e = TypeError"
    by (cases data) (auto simp: cardData_and_theme_def split: if_splits sum.splits)
  with Inl assms(1) show ?thesis by (simp add: initializeApp_try_def)
next
  case (Inr ok)
  with assms(2) have "\<not> ok" by simp
  with Inr assms(1) show ?thesis by (simp add: initializeApp_try_def)
qed

lemma try_accepted:
  assumes "Decode pf tok = Inr data" "cardData_and_theme data = Inr True"
  shows "initializeApp_try pf tok st = (None, st\<lparr>receivedCard := Some data\<rparr>)"
  using assms by (simp add: initializeApp_try_def)

lemma Decode_errors: "Decode pf tok = Inl e \<Longrightarrow> e = TypeError \<or> e = SyntaxError"
  by (auto simp: Decode_def decodeAndDecompress_def split: option.splits)

lemma initializeApp_accepted:
  assumes "URLSearchParams_get pf (search (location st)) (js ''card'') = Some tok" "tok \<noteq> []"
    and "Decode pf tok = Inr data" "cardData_and_theme data = Inr True"
  shows "initializeApp pf st = st\<lparr>receivedCard := Some data, currentUser := None, isAdmin := False\<rparr>"
  using assms by (simp add: initializeApp_def try_accepted)

lemma opened_with_search:
  "search (location (opened_with tok)) = query_card @ tok"
  "receivedCard (opened_with tok) = None"
  "effects (opened_with tok) = []"
  by (simp_all add: opened_with_def sample_state_def)

lemma baseUrl_exporting [simp]:
  "baseUrl (st\<lparr>exportMessage := m, isExporting := b\<rparr>) = baseUrl st"
  by (simp add: baseUrl_def)

lemma getDataForSharing_exporting [simp]:
  "getDataForSharing (st\<lparr>exportMessage := m, isExporting := b\<rparr>) = getDataForSharing st"
  by (simp add: getDataForSharing_def split: option.splits)

lemma handleCopyShareLink_effects:
  assumes "Encode pf (dataToShare_value (getDataForSharing st)) = Inr t"
  shows "effects (handleCopyShareLink pf st) =
           effects st @ ClipboardWrite (baseUrl st @ query_card @ t) #
             (if clipboard_rejects pf (baseUrl st @ query_card @ t)
              then [ConsoleError (js ''Failed to create share link:'') DOMException,
                    Alert (js ''Could not create a shareable link.'')]
              else [])"
  using assms
  by (simp add: handleCopyShareLink_def handleCopyShareLink_try_def copyToClipboard_def
      emit_def Let_def)

lemma sample_sharing:
  "getDataForSharing sample_state = (sample_card, sample_theme)"
  "getDataForSharing long_state = (sample_card, sample_theme)"
  "effects sample_state = []" "effects long_state = []"
  by (simp_all add: getDataForSharing_def sample_state_def long_state_def)

lemma long_state_baseUrl: "length (baseUrl long_state) = 2024"
  by (simp add: baseUrl_def long_state_def sample_state_def js_def)

lemma cardData_keys_simplified:
  "cardData_keys (simplifiedData d) =
     [js ''name'', js ''title'', js ''company'', js ''bio'', js ''contactInfo'',
      js ''socialLinks'', js ''careerHistory'']"
  by (simp add: cardData_keys_def simplifiedData_def)

lemma cardData_keys_full:
  "cardData_keys (dataToShare_value d) =
     [js ''bannerImage'', js ''profilePicture'', js ''name'', js ''title'', js ''company'',
      js ''bio'', js ''contactInfo'', js ''socialLinks'', js ''careerHistory'',
      js ''fontFamily'', js ''nameFontSize'', js ''nameFontWeight'', js ''nameFontColor'',
      js ''titleFontSize'', js ''titleFontWeight'', js ''titleFontColor'',
      js ''companyFontSize'', js ''companyFontWeight'', js ''companyFontColor'',
      js ''baseFontSize'', js ''baseFontWeight'', js ''baseFontColor'', js ''layout'']"
  by (simp add: cardData_keys_def dataToShare_value_def BusinessCardData_value_def)

lemma gunzip_full: "gunzip sample_platform full_gz = Some (map ucast full_text)"
  by (simp add: sample_platform_def gzip_table_def sample_gz_defs)

lemma parse_full:
  "JSON_parse sample_platform (map ucast (map ucast full_text :: byte list)) =
     Some (dataToShare_value (sample_card, sample_theme))"
  by (simp add: sample_platform_def json_table_def sample_text_defs)

lemma Decode_full:
  "Decode sample_platform full_token = Inr (dataToShare_value (sample_card, sample_theme))"
  using Decode_sample [of full_gz]
  by (simp only: token_full gunzip_full parse_full option.case)

lemma tokens_differ: "simplified_token \<noteq> full_token"
  by (simp add: simplified_token_def full_token_def js_def)

lemma Decode_fetch_fails:
  "fetch_data_url pf (data_url_prefix @ fromUrlSafeBase64 tok) = None \<Longrightarrow>
     Decode pf tok = Inl TypeError"
  by (simp add: Decode_def decodeAndDecompress_def)

lemma Decode_gunzip_fails:
  "fetch_data_url pf (data_url_prefix @ fromUrlSafeBase64 tok) = Some blob \<Longrightarrow>
   gunzip pf blob = None \<Longrightarrow> Decode pf tok = Inl TypeError"
  by (simp add: Decode_def decodeAndDecompress_def)

lemma Decode_parse_fails:
  "fetch_data_url pf (data_url_prefix @ fromUrlSafeBase64 tok) = Some blob \<Longrightarrow>
   gunzip pf blob = Some bytes \<Longrightarrow> JSON_parse pf (utf8_decode pf bytes) = None \<Longrightarrow>
   Decode pf tok = Inl SyntaxError"
  by (simp add: Decode_def decodeAndDecompress_def)

lemma Decode_parses:
  "fetch_data_url pf (data_url_prefix @ fromUrlSafeBase64 tok) = Some blob \<Longrightarrow>
   gunzip pf blob = Some bytes \<Longrightarrow> JSON_parse pf (utf8_decode pf bytes) = Some data \<Longrightarrow>
   Decode pf tok = Inr data"
  by (simp add: Decode_def decodeAndDecompress_def)

lemma cardData_and_theme_null: "cardData_and_theme JNull = Inl TypeError"
  by (simp add: cardData_and_theme_def)

lemma cardData_and_theme_props:
  "getProp data (js ''cardData'') = Inr c \<Longrightarrow> getProp data (js ''theme'') = Inr t \<Longrightarrow>
     cardData_and_theme data = Inr (truthy c \<and> truthy t)"
  by (simp add: cardData_and_theme_def)

lemma getProp_total: "data \<noteq> JNull \<Longrightarrow> \<exists>c. getProp data k = Inr c"
  by (cases data) simp_all

lemma initializeApp_null:
  assumes "URLSearchParams_get pf (search (location st)) (js ''card'') = Some tok" "tok \<noteq> []"
    and "Decode pf tok = Inr JNull"
  shows "initializeApp pf st = reported TypeError st"
proof -
  have "initializeApp_try pf tok st = (Some TypeError, st)"
    using assms(3) by (simp add: initializeApp_try_def cardData_and_theme_null)
  from initializeApp_thrown [OF assms(1,2) this] show ?thesis .
qed

lemma initializeApp_props:
  assumes "URLSearchParams_get pf (search (location st)) (js ''card'') = Some tok" "tok \<noteq> []"
    and "Decode pf tok = Inr data"
    and "getProp data (js ''cardData'') = Inr c" "getProp data (js ''theme'') = Inr t"
  shows "initializeApp pf st =
           (if truthy c \<and> truthy t
            then st\<lparr>receivedCard := Some data, currentUser := None, isAdmin := False\<rparr>
            else reported (Error (js ''Invalid card data structure'')) st)"
proof (cases "truthy c \<and> truthy t")
  case True
  then have "cardData_and_theme data = Inr True"
    using cardData_and_theme_props [OF assms(4,5)] by simp
  from initializeApp_accepted [OF assms(1,2,3) this] show ?thesis
    by (simp only: if_P [OF True])
next
  case False
  then have "cardData_and_theme data = Inr False"
    using cardData_and_theme_props [OF assms(4,5)] by simp
  then have "initializeApp_try pf tok st =
               (Some (Error (js ''Invalid card data structure'')), st)"
    using assms(3) by (simp add: initializeApp_try_def)
  from initializeApp_thrown [OF assms(1,2) this] show ?thesis
    by (simp only: if_not_P [OF False])
qed

lemma from_token: "fromUrlSafeBase64 (toUrlSafeBase64 (b64encode z)) = b64encode z"
  by (rule from_to_valid [OF b64encode_valid])

lemma fetch_sample_token:
  "fetch_data_url sample_platform
     (data_url_prefix @ fromUrlSafeBase64 (toUrlSafeBase64 (b64encode z))) = Some z"
  by (simp only: from_token sample_fields b64decode_b64encode)

lemma opened_get:
  "URLSearchParams_get sample_platform (search (location (opened_with tok))) (js ''card'') =
     Some tok"
  by (simp add: opened_with_search URLSearchParams_get_sample)

lemma sample_tokens_nonempty:
  "badchar_token \<noteq> []" "corrupt_token \<noteq> []" "notjson_token \<noteq> []" "null_token \<noteq> []"
  "other_token \<noteq> []" "loose_token \<noteq> []"
  by (simp_all add: badchar_token_def corrupt_token_def notjson_token_def null_token_def
      other_token_def loose_token_def js_def)

section \<open>The claims\<close>

text \<open>
  C6. For every valid standard base64 string, the decode-side transform inverts the
  encode-side transform.
\<close>

theorem url_safe_transform_inverse:
  "valid_base64 b \<Longrightarrow> fromUrlSafeBase64 (toUrlSafeBase64 b) = b"
  by (rule from_to_valid)

theorem url_safe_transform_inverse_witness:
  "valid_base64 (js ''ab+/cQ=='') \<and>
   toUrlSafeBase64 (js ''ab+/cQ=='') = js ''ab-_cQ'' \<and>
   fromUrlSafeBase64 (js ''ab-_cQ'') = js ''ab+/cQ==''"
proof -
  have v: "valid_base64 (js ''ab+/cQ=='')"
    by (simp add: valid_base64_def is_b64_char_def b64chars_def js_def chr_eq_def)
  have t: "toUrlSafeBase64 (js ''ab+/cQ=='') = js ''ab-_cQ''"
    by (simp add: toUrlSafeBase64_eq js_def chr_eq_def chr_slash_def chr_plus_def
        chr_minus_def chr_underscore_def)
  from url_safe_transform_inverse [OF v] v t show ?thesis by simp
qed

text \<open>
  C10. The padding loop ends, after at most three rounds, with a string whose length is
  a multiple of four; a string of length 1 modulo 4 gets three padding characters, and
  no token made from valid base64 has such a length.
\<close>

theorem fromUrlSafeBase64_padding:
  "\<exists>k\<le>3. fromUrlSafeBase64 s =
            replaceAll chr_underscore [chr_slash] (replaceAll chr_minus [chr_plus] s)
            @ replicate k chr_eq \<and>
          length (fromUrlSafeBase64 s) mod 4 = 0 \<and>
          (length s mod 4 = 1 \<longrightarrow> k = 3) \<and>
          (\<forall>b. valid_base64 b \<longrightarrow> length (toUrlSafeBase64 b) mod 4 \<noteq> 1)"
proof -
  let ?k = "(4 - length s mod 4) mod 4"
  have 1: "?k \<le> 3" by (rule pad_count_le)
  have 2: "fromUrlSafeBase64 s =
            replaceAll chr_underscore [chr_slash] (replaceAll chr_minus [chr_plus] s)
            @ replicate ?k chr_eq"
    by (simp add: fromUrlSafeBase64_def pad_loop_eq replaceAll_char)
  have 3: "length (fromUrlSafeBase64 s) mod 4 = 0"
    by (simp add: fromUrlSafeBase64_def pad_loop_length)
  have 4: "length s mod 4 = 1 \<longrightarrow> ?k = 3" by simp
  have 5: "\<forall>b. valid_base64 b \<longrightarrow> length (toUrlSafeBase64 b) mod 4 \<noteq> 1"
    using token_length_valid by simp
  show ?thesis
    by (rule exI [of _ ?k], intro conjI) (rule 1, rule 2, rule 3, rule 4, rule 5)
qed

theorem fromUrlSafeBase64_padding_witness:
  "length (js ''ab-_c'') mod 4 = 1 \<and> fromUrlSafeBase64 (js ''ab-_c'') = js ''ab+/c===''"
proof -
  have l: "length (js ''ab-_c'') mod 4 = 1" by (simp add: js_def)
  from fromUrlSafeBase64_padding [of "js ''ab-_c''"] obtain k where
    "fromUrlSafeBase64 (js ''ab-_c'') =
       replaceAll chr_underscore [chr_slash] (replaceAll chr_minus [chr_plus] (js ''ab-_c''))
       @ replicate k chr_eq" and "length (js ''ab-_c'') mod 4 = 1 \<longrightarrow> k = 3"
    by blast
  with l have "fromUrlSafeBase64 (js ''ab-_c'') =
       replaceAll chr_underscore [chr_slash] (replaceAll chr_minus [chr_plus] (js ''ab-_c''))
       @ replicate 3 chr_eq" by simp
  then show ?thesis
    using l by (simp add: replaceAll_char replicate_3 js_def chr_eq_def chr_slash_def
        chr_plus_def chr_minus_def chr_underscore_def)
qed

text \<open>
  C1. Decoding the token of a payload yields the payload, for every payload on which the
  platform's decoders invert its encoders.
\<close>

theorem share_link_roundtrip:
  "codec_contract pf p \<Longrightarrow> \<exists>t. Encode pf p = Inr t \<and> Decode pf t = Inr p"
  using codec_roundtrip by blast

theorem share_link_roundtrip_witness:
  "codec_contract sample_platform (simplifiedData (sample_card, sample_theme)) \<and>
   Encode sample_platform (simplifiedData (sample_card, sample_theme)) = Inr simplified_token \<and>
   Decode sample_platform simplified_token = Inr (simplifiedData (sample_card, sample_theme))"
proof -
  from share_link_roundtrip [OF contract_sample] obtain t where
    e: "Encode sample_platform (simplifiedData (sample_card, sample_theme)) = Inr t" and
    d: "Decode sample_platform t = Inr (simplifiedData (sample_card, sample_theme))"
    by blast
  from e have "t = simplified_token" by (simp add: Encode_simplified)
  with e d contract_sample show ?thesis by simp
qed

text \<open>
  C7. A token never contains \<open>+\<close>, \<open>/\<close> or \<open>=\<close>.
\<close>

theorem token_url_safe:
  "Encode pf p = Inr t \<Longrightarrow> chr_plus \<notin> set t \<and> chr_slash \<notin> set t \<and> chr_eq \<notin> set t"
proof -
  assume "Encode pf p = Inr t"
  then obtain b where "t = toUrlSafeBase64 b"
    by (auto simp: Encode_def split: sum.splits option.splits)
  then show ?thesis
    using chr_distinct by (auto simp: toUrlSafeBase64_eq)
qed

theorem token_url_safe_witness:
  "Encode sample_platform (simplifiedData (sample_card, sample_theme)) = Inr simplified_token \<and>
   chr_plus \<notin> set simplified_token \<and> chr_slash \<notin> set simplified_token \<and>
   chr_eq \<notin> set simplified_token"
  using token_url_safe [OF Encode_simplified] Encode_simplified by simp

text \<open>
  C5. When the decode of the token fails, the page-load handler shows the notice, clears
  the query from the address and changes nothing else but the two resets that every
  start-up makes: in particular \<open>receivedCard\<close> keeps its value.
\<close>

theorem failed_decode_is_reported:
  assumes "URLSearchParams_get pf (search (location st)) (js ''card'') = Some tok"
    and "tok \<noteq> []"
    and "Decode pf tok = Inl e \<or>
         (\<exists>data. Decode pf tok = Inr data \<and> cardData_and_theme data \<noteq> Inr True)"
  shows "\<exists>e'. initializeApp pf st =
           st\<lparr>currentUser := None, isAdmin := False,
              location := (location st)\<lparr>search := []\<rparr>,
              effects := effects st @
                [ConsoleError (js ''Failed to process shared card data:'') e',
                 Alert (js ''The shared card link seems to be invalid or corrupted.''),
                 ReplaceState (pathname (location st))]\<rparr>"
proof -
  from assms(3) obtain e' where "initializeApp_try pf tok st = (Some e', st)"
    using try_decode_error try_structure_error by blast
  from initializeApp_thrown [OF assms(1,2) this] show ?thesis
    by (auto simp: reported_def)
qed

theorem failed_decode_is_reported_witness:
  "Decode sample_platform notjson_token = Inl SyntaxError \<and>
   receivedCard (initializeApp sample_platform (opened_with notjson_token)) = None \<and>
   search (location (initializeApp sample_platform (opened_with notjson_token))) = [] \<and>
   Alert (js ''The shared card link seems to be invalid or corrupted.'')
     \<in> set (effects (initializeApp sample_platform (opened_with notjson_token)))"
proof -
  have g: "URLSearchParams_get sample_platform (search (location (opened_with notjson_token)))
             (js ''card'') = Some notjson_token"
    by (simp add: opened_with_search URLSearchParams_get_sample)
  have n: "notjson_token \<noteq> []" by (simp add: notjson_token_def js_def)
  have d: "Decode sample_platform notjson_token = Inl SyntaxError \<or>
         (\<exists>data. Decode sample_platform notjson_token = Inr data \<and>
            cardData_and_theme data \<noteq> Inr True)"
    by (simp add: Decode_notjson)
  from failed_decode_is_reported [OF g n d] obtain e' where
    "initializeApp sample_platform (opened_with notjson_token) =
       (opened_with notjson_token)\<lparr>currentUser := None, isAdmin := False,
          location := (location (opened_with notjson_token))\<lparr>search := []\<rparr>,
          effects := effects (opened_with notjson_token) @
            [ConsoleError (js ''Failed to process shared card data:'') e',
             Alert (js ''The shared card link seems to be invalid or corrupted.''),
             ReplaceState (pathname (location (opened_with notjson_token)))]\<rparr>"
    by blast
  then show ?thesis by (simp add: Decode_notjson opened_with_search)
qed

text \<open>
  C9. A token whose JSON is an object with truthy \<open>cardData\<close> and \<open>theme\<close> is received as
  a card, whatever these two properties hold.
\<close>

theorem truthy_card_is_received:
  assumes "URLSearchParams_get pf (search (location st)) (js ''card'') = Some tok"
    and "tok \<noteq> []"
    and "Decode pf tok = Inr (JObj kvs)"
    and "truthy (map_of kvs (js ''cardData''))"
    and "truthy (map_of kvs (js ''theme''))"
  shows "initializeApp pf st =
           st\<lparr>receivedCard := Some (JObj kvs), currentUser := None, isAdmin := False\<rparr>"
proof -
  have "cardData_and_theme (JObj kvs) = Inr True"
    using assms(4,5) by (simp add: cardData_and_theme_def)
  from initializeApp_accepted [OF assms(1,2,3) this] show ?thesis .
qed

theorem truthy_card_is_received_witness:
  "Decode sample_platform loose_token =
     Inr (JObj [(js ''cardData'', JNum (Finite 1)), (js ''theme'', JStr (js ''x''))]) \<and>
   receivedCard (initializeApp sample_platform (opened_with loose_token)) =
     Some (JObj [(js ''cardData'', JNum (Finite 1)), (js ''theme'', JStr (js ''x''))]) \<and>
   effects (initializeApp sample_platform (opened_with loose_token)) = []"
proof -
  let ?kvs = "[(js ''cardData'', JNum (Finite 1)), (js ''theme'', JStr (js ''x''))]"
  have g: "URLSearchParams_get sample_platform (search (location (opened_with loose_token)))
             (js ''card'') = Some loose_token"
    by (simp add: opened_with_search URLSearchParams_get_sample)
  have n: "loose_token \<noteq> []" by (simp add: loose_token_def js_def)
  have c: "truthy (map_of ?kvs (js ''cardData''))" by (simp add: js_def)
  have t: "truthy (map_of ?kvs (js ''theme''))" by (simp add: js_def)
  from truthy_card_is_received [OF g n Decode_loose c t] show ?thesis
    by (simp add: Decode_loose opened_with_search)
qed

text \<open>
  C4, counterexample. The token of \<^verbatim>\<open>{"cardData":1,"theme":"x"}\<close> decompresses to JSON that
  is not a card, yet nothing fails: Decode returns the value and the page-load handler
  receives it as a card, without a notice. Decode also returns \<^verbatim>\<open>{"a":1}\<close> without an
  error, and the failures it does have are of two classes, not one.
\<close>

theorem malformed_token_counterexample:
  "Decode sample_platform loose_token =
     Inr (JObj [(js ''cardData'', JNum (Finite 1)), (js ''theme'', JStr (js ''x''))]) \<and>
   initializeApp sample_platform (opened_with loose_token) =
     (opened_with loose_token)
       \<lparr>receivedCard :=
          Some (JObj [(js ''cardData'', JNum (Finite 1)), (js ''theme'', JStr (js ''x''))]),
        currentUser := None, isAdmin := False\<rparr> \<and>
   effects (initializeApp sample_platform (opened_with loose_token)) = [] \<and>
   Decode sample_platform other_token = Inr (JObj [(js ''a'', JNum (Finite 1))]) \<and>
   Decode sample_platform badchar_token = Inl TypeError \<and>
   Decode sample_platform corrupt_token = Inl TypeError \<and>
   Decode sample_platform notjson_token = Inl SyntaxError"
proof -
  let ?v = "JObj [(js ''cardData'', JNum (Finite 1)), (js ''theme'', JStr (js ''x''))]"
  have "cardData_and_theme ?v = Inr True"
    by (simp add: cardData_and_theme_def js_def)
  from initializeApp_accepted [OF opened_get sample_tokens_nonempty(6) Decode_loose this]
  have a: "initializeApp sample_platform (opened_with loose_token) =
     (opened_with loose_token)\<lparr>receivedCard := Some ?v, currentUser := None, isAdmin := False\<rparr>" .
  then have "effects (initializeApp sample_platform (opened_with loose_token)) = []"
    by (simp add: opened_with_search)
  with a show ?thesis
    by (simp only: Decode_loose Decode_other Decode_badchar Decode_corrupt Decode_notjson
        simp_thms)
qed

text \<open>
  C4, amended. Decode fails with the platform's own errors and checks no structure: a
  \<open>TypeError\<close> when the base64 data URL cannot be fetched or the gzip stream is corrupt, a
  \<open>SyntaxError\<close> when the text is not JSON, and any JSON text is decoded. The page-load
  handler rejects a decoded \<open>null\<close> with a \<open>TypeError\<close> and a value whose \<open>cardData\<close> or
  \<open>theme\<close> is missing or falsy with \<open>Error("Invalid card data structure")\<close>; a value in
  which both are truthy is received as a card whatever else it holds. Every error is
  caught by the one \<open>catch\<close> block, which logs it, shows the notice and clears the address.
\<close>

theorem decode_errors_are_caught:
  assumes "URLSearchParams_get pf (search (location st)) (js ''card'') = Some tok"
    and "tok \<noteq> []"
  shows
    "(fetch_data_url pf (data_url_prefix @ fromUrlSafeBase64 tok) = None \<longrightarrow>
        Decode pf tok = Inl TypeError \<and> initializeApp pf st = reported TypeError st) \<and>
     (\<forall>blob. fetch_data_url pf (data_url_prefix @ fromUrlSafeBase64 tok) = Some blob \<and>
          gunzip pf blob = None \<longrightarrow>
        Decode pf tok = Inl TypeError \<and> initializeApp pf st = reported TypeError st) \<and>
     (\<forall>blob bytes. fetch_data_url pf (data_url_prefix @ fromUrlSafeBase64 tok) = Some blob \<and>
          gunzip pf blob = Some bytes \<and> JSON_parse pf (utf8_decode pf bytes) = None \<longrightarrow>
        Decode pf tok = Inl SyntaxError \<and> initializeApp pf st = reported SyntaxError st) \<and>
     (\<forall>blob bytes data. fetch_data_url pf (data_url_prefix @ fromUrlSafeBase64 tok) = Some blob \<and>
          gunzip pf blob = Some bytes \<and> JSON_parse pf (utf8_decode pf bytes) = Some data \<longrightarrow>
        Decode pf tok = Inr data) \<and>
     (Decode pf tok = Inr JNull \<longrightarrow> initializeApp pf st = reported TypeError st) \<and>
     (\<forall>data. Decode pf tok = Inr data \<and> data \<noteq> JNull \<longrightarrow>
        (\<exists>c t. getProp data (js ''cardData'') = Inr c \<and> getProp data (js ''theme'') = Inr t \<and>
           initializeApp pf st =
             (if truthy c \<and> truthy t
              then st\<lparr>receivedCard := Some data, currentUser := None, isAdmin := False\<rparr>
              else reported (Error (js ''Invalid card data structure'')) st)))"
proof (intro conjI impI allI)
  assume f: "fetch_data_url pf (data_url_prefix @ fromUrlSafeBase64 tok) = None"
  from Decode_fetch_fails [OF f] show d: "Decode pf tok = Inl TypeError" .
  from initializeApp_thrown [OF assms try_decode_error [OF d]]
  show "initializeApp pf st = reported TypeError st" .
next
  fix blob
  assume "fetch_data_url pf (data_url_prefix @ fromUrlSafeBase64 tok) = Some blob \<and>
          gunzip pf blob = None"
  then have "Decode pf tok = Inl TypeError" using Decode_gunzip_fails by blast
  then show d: "Decode pf tok = Inl TypeError" .
  from initializeApp_thrown [OF assms try_decode_error [OF d]]
  show "initializeApp pf st = reported TypeError st" .
next
  fix blob bytes
  assume "fetch_data_url pf (data_url_prefix @ fromUrlSafeBase64 tok) = Some blob \<and>
          gunzip pf blob = Some bytes \<and> JSON_parse pf (utf8_decode pf bytes) = None"
  then have "Decode pf tok = Inl SyntaxError" using Decode_parse_fails by blast
  then show d: "Decode pf tok = Inl SyntaxError" .
  from initializeApp_thrown [OF assms try_decode_error [OF d]]
  show "initializeApp pf st = reported SyntaxError st" .
next
  fix blob bytes data
  assume "fetch_data_url pf (data_url_prefix @ fromUrlSafeBase64 tok) = Some blob \<and>
          gunzip pf blob = Some bytes \<and> JSON_parse pf (utf8_decode pf bytes) = Some data"
  then show "Decode pf tok = Inr data" using Decode_parses by blast
next
  assume "Decode pf tok = Inr JNull"
  from initializeApp_null [OF assms this]
  show "initializeApp pf st = reported TypeError st" .
next
  fix data
  assume a: "Decode pf tok = Inr data \<and> data \<noteq> JNull"
  then obtain c t where c: "getProp data (js ''cardData'') = Inr c"
    and t: "getProp data (js ''theme'') = Inr t"
    using getProp_total by blast
  from a have d: "Decode pf tok = Inr data" by simp
  from initializeApp_props [OF assms d c t] c t
  show "\<exists>c t. getProp data (js ''cardData'') = Inr c \<and> getProp data (js ''theme'') = Inr t \<and>
           initializeApp pf st =
             (if truthy c \<and> truthy t
              then st\<lparr>receivedCard := Some data, currentUser := None, isAdmin := False\<rparr>
              else reported (Error (js ''Invalid card data structure'')) st)"
    by blast
qed

theorem decode_errors_are_caught_witness:
  "initializeApp sample_platform (opened_with badchar_token) =
     reported TypeError (opened_with badchar_token) \<and>
   initializeApp sample_platform (opened_with corrupt_token) =
     reported TypeError (opened_with corrupt_token) \<and>
   initializeApp sample_platform (opened_with notjson_token) =
     reported SyntaxError (opened_with notjson_token) \<and>
   initializeApp sample_platform (opened_with null_token) =
     reported TypeError (opened_with null_token) \<and>
   initializeApp sample_platform (opened_with other_token) =
     reported (Error (js ''Invalid card data structure'')) (opened_with other_token) \<and>
   initializeApp sample_platform (opened_with loose_token) =
     (opened_with loose_token)
       \<lparr>receivedCard :=
          Some (JObj [(js ''cardData'', JNum (Finite 1)), (js ''theme'', JStr (js ''x''))]),
        currentUser := None, isAdmin := False\<rparr>"
proof -
  have f1: "fetch_data_url sample_platform (data_url_prefix @ fromUrlSafeBase64 badchar_token)
              = None"
    by (simp only: sample_fields b64decode_badchar)
  have 1: "initializeApp sample_platform (opened_with badchar_token) =
             reported TypeError (opened_with badchar_token)"
    using decode_errors_are_caught [OF opened_get sample_tokens_nonempty(1), THEN conjunct1] f1
    by simp
  have f2: "fetch_data_url sample_platform (data_url_prefix @ fromUrlSafeBase64 corrupt_token)
              = Some corrupt_gz"
    using fetch_sample_token [of corrupt_gz] by (simp only: token_corrupt)
  have 2: "initializeApp sample_platform (opened_with corrupt_token) =
             reported TypeError (opened_with corrupt_token)"
    using decode_errors_are_caught [OF opened_get sample_tokens_nonempty(2),
        THEN conjunct2, THEN conjunct1, THEN spec, of corrupt_gz] f2 gunzip_sample
    by simp
  have f3: "fetch_data_url sample_platform (data_url_prefix @ fromUrlSafeBase64 notjson_token)
              = Some notjson_gz"
    using fetch_sample_token [of notjson_gz] by (simp only: token_notjson)
  have p3: "JSON_parse sample_platform
              (utf8_decode sample_platform (map ucast (js ''not json''))) = None"
    by (simp only: sample_fields parse_sample)
  have 3: "initializeApp sample_platform (opened_with notjson_token) =
             reported SyntaxError (opened_with notjson_token)"
    using decode_errors_are_caught [OF opened_get sample_tokens_nonempty(3),
        THEN conjunct2, THEN conjunct2, THEN conjunct1, THEN spec, THEN spec,
        of notjson_gz "map ucast (js ''not json'')"] f3 gunzip_sample p3
    by simp
  have 4: "initializeApp sample_platform (opened_with null_token) =
             reported TypeError (opened_with null_token)"
    using decode_errors_are_caught [OF opened_get sample_tokens_nonempty(4),
        THEN conjunct2, THEN conjunct2, THEN conjunct2, THEN conjunct2, THEN conjunct1]
      Decode_null
    by simp
  have 5: "initializeApp sample_platform (opened_with other_token) =
             reported (Error (js ''Invalid card data structure'')) (opened_with other_token)"
    using decode_errors_are_caught [OF opened_get sample_tokens_nonempty(5),
        THEN conjunct2, THEN conjunct2, THEN conjunct2, THEN conjunct2, THEN conjunct2,
        THEN spec, of "JObj [(js ''a'', JNum (Finite 1))]"] Decode_other
    by (simp add: js_def)
  have 6: "initializeApp sample_platform (opened_with loose_token) =
     (opened_with loose_token)
       \<lparr>receivedCard :=
          Some (JObj [(js ''cardData'', JNum (Finite 1)), (js ''theme'', JStr (js ''x''))]),
        currentUser := None, isAdmin := False\<rparr>"
    using decode_errors_are_caught [OF opened_get sample_tokens_nonempty(6),
        THEN conjunct2, THEN conjunct2, THEN conjunct2, THEN conjunct2, THEN conjunct2,
        THEN spec, of "JObj [(js ''cardData'', JNum (Finite 1)), (js ''theme'', JStr (js ''x''))]"]
      Decode_loose
    by (simp add: js_def)
  from 1 2 3 4 5 6 show ?thesis by (intro conjI)
qed

text \<open>
  C3, counterexample. On a page whose link is longer than 2000 characters,
  \<open>handleCopyShareLink\<close> copies the long link.
\<close>

theorem copy_link_long_url_counterexample:
  "2000 < length (baseUrl long_state @ query_card @ full_token) \<and>
   effects (handleCopyShareLink sample_platform long_state) =
     [ClipboardWrite (baseUrl long_state @ query_card @ full_token)]"
proof -
  have e: "Encode sample_platform (dataToShare_value (getDataForSharing long_state)) =
             Inr full_token"
    by (simp only: sample_sharing Encode_full)
  have "2000 < length (baseUrl long_state @ query_card @ full_token)"
    by (simp add: long_state_baseUrl)
  with handleCopyShareLink_effects [OF e] show ?thesis
    by (simp add: sample_sharing sample_fields)
qed

text \<open>
  C3, amended. In \<open>createAndShareLink\<close> a link of more than 2000 code units is neither
  shared nor copied: what goes out is the short text with the bare address, through
  \<open>navigator.share\<close> or, when that is missing or fails, through the clipboard.
  \<open>handleCopyShareLink\<close> has no threshold and copies the link whatever its length.
\<close>

theorem long_link_fallback:
  "(Encode pf (simplifiedData d) = Inr t \<and> 2000 < length (baseUrl st @ query_card @ t) \<longrightarrow>
      effects (createAndShareLink pf d st) =
        effects st @
        (let shareText = (if name (fst d) \<noteq> [] then name (fst d) @ shareText_named
                          else shareText_plain);
             message = shareText @ js '' '' @ baseUrl st;
             shared = \<lparr>ShareData.title = shareTitle_ko, ShareData.text = shareText,
                        ShareData.url = baseUrl st\<rparr>;
             copy = ClipboardWrite message #
                    (if clipboard_rejects pf message
                     then [ConsoleError (js ''Failed to create or share link:'') DOMException,
                           Alert linkFailed_ko]
                     else [])
         in ConsoleWarn (js ''URL too long, using simplified sharing'') #
            (if navigator_share pf \<and> navigator_canShare pf
             then Share shared #
                  (if share_rejects pf shared
                   then ConsoleLog (js ''Web Share API failed, falling back to copy:'') # copy
                   else [])
             else copy))) \<and>
   (Encode pf (dataToShare_value (getDataForSharing st)) = Inr t' \<longrightarrow>
      effects (handleCopyShareLink pf st) =
        effects st @ ClipboardWrite (baseUrl st @ query_card @ t') #
          (if clipboard_rejects pf (baseUrl st @ query_card @ t')
           then [ConsoleError (js ''Failed to create share link:'') DOMException,
                 Alert (js ''Could not create a shareable link.'')]
           else []))"
proof (intro conjI impI)
  assume a: "Encode pf (simplifiedData d) = Inr t \<and> 2000 < length (baseUrl st @ query_card @ t)"
  then show "effects (createAndShareLink pf d st) =
        effects st @
        (let shareText = (if name (fst d) \<noteq> [] then name (fst d) @ shareText_named
                          else shareText_plain);
             message = shareText @ js '' '' @ baseUrl st;
             shared = \<lparr>ShareData.title = shareTitle_ko, ShareData.text = shareText,
                        ShareData.url = baseUrl st\<rparr>;
             copy = ClipboardWrite message #
                    (if clipboard_rejects pf message
                     then [ConsoleError (js ''Failed to create or share link:'') DOMException,
                           Alert linkFailed_ko]
                     else [])
         in ConsoleWarn (js ''URL too long, using simplified sharing'') #
            (if navigator_share pf \<and> navigator_canShare pf
             then Share shared #
                  (if share_rejects pf shared
                   then ConsoleLog (js ''Web Share API failed, falling back to copy:'') # copy
                   else [])
             else copy))"
    by (simp add: createAndShareLink_def createAndShareLink_try_def copyToClipboard_def
        emit_def Let_def)
next
  assume "Encode pf (dataToShare_value (getDataForSharing st)) = Inr t'"
  then show "effects (handleCopyShareLink pf st) =
        effects st @ ClipboardWrite (baseUrl st @ query_card @ t') #
          (if clipboard_rejects pf (baseUrl st @ query_card @ t')
           then [ConsoleError (js ''Failed to create share link:'') DOMException,
                 Alert (js ''Could not create a shareable link.'')]
           else [])"
    by (rule handleCopyShareLink_effects)
qed

theorem long_link_fallback_witness:
  "Encode sample_platform (simplifiedData (sample_card, sample_theme)) = Inr simplified_token \<and>
   2000 < length (baseUrl long_state @ query_card @ simplified_token) \<and>
   effects (createAndShareLink sample_platform (sample_card, sample_theme) long_state) =
     [ConsoleWarn (js ''URL too long, using simplified sharing''),
      Share \<lparr>ShareData.title = shareTitle_ko,
             ShareData.text = js ''Jane Doe'' @ shareText_named,
             ShareData.url = baseUrl long_state\<rparr>] \<and>
   effects (handleCopyShareLink sample_platform long_state) =
     [ClipboardWrite (baseUrl long_state @ query_card @ full_token)]"
proof -
  have l: "2000 < length (baseUrl long_state @ query_card @ simplified_token)"
    by (simp add: long_state_baseUrl)
  have e: "Encode sample_platform (dataToShare_value (getDataForSharing long_state)) =
             Inr full_token"
    by (simp only: sample_sharing Encode_full)
  have n: "name sample_card = js ''Jane Doe''"
    by (simp add: sample_card_def)
  have j: "js ''Jane Doe'' \<noteq> []" by (simp add: js_def)
  from long_link_fallback [of sample_platform "(sample_card, sample_theme)" simplified_token
      long_state full_token] Encode_simplified l e
  show ?thesis
    by (simp add: sample_fields sample_sharing n j Let_def)
qed

text \<open>
  C2, at the sample card. The link that \<open>handleCopyShareLink\<close> copies decodes to an
  object whose \<open>cardData\<close> has the properties \<open>profilePicture\<close> and \<open>bannerImage\<close>; the
  payload of \<open>createAndShareLink\<close> has neither.
\<close>

theorem copy_link_embeds_media:
  "effects (handleCopyShareLink sample_platform sample_state) =
     [ClipboardWrite (baseUrl sample_state @ query_card @ full_token)] \<and>
   Decode sample_platform full_token = Inr (dataToShare_value (sample_card, sample_theme)) \<and>
   js ''profilePicture'' \<in> set (cardData_keys (dataToShare_value (sample_card, sample_theme))) \<and>
   js ''bannerImage'' \<in> set (cardData_keys (dataToShare_value (sample_card, sample_theme))) \<and>
   js ''profilePicture'' \<notin> set (cardData_keys (simplifiedData (sample_card, sample_theme))) \<and>
   js ''bannerImage'' \<notin> set (cardData_keys (simplifiedData (sample_card, sample_theme)))"
proof -
  have e: "Encode sample_platform (dataToShare_value (getDataForSharing sample_state)) =
             Inr full_token"
    by (simp only: sample_sharing Encode_full)
  have 1: "effects (handleCopyShareLink sample_platform sample_state) =
     [ClipboardWrite (baseUrl sample_state @ query_card @ full_token)]"
    using handleCopyShareLink_effects [OF e] by (simp add: sample_sharing sample_fields)
  have 2: "js ''profilePicture'' \<in> set (cardData_keys (dataToShare_value (sample_card, sample_theme)))"
    "js ''bannerImage'' \<in> set (cardData_keys (dataToShare_value (sample_card, sample_theme)))"
    by (simp_all add: cardData_keys_full)
  have 3: "js ''profilePicture'' \<notin> set (cardData_keys (simplifiedData (sample_card, sample_theme)))"
    "js ''bannerImage'' \<notin> set (cardData_keys (simplifiedData (sample_card, sample_theme)))"
    by (simp_all add: cardData_keys_simplified js_def)
  from 1 Decode_full 2 3 show ?thesis by simp
qed

text \<open>
  C8, at the sample card. The two sharing paths serialise objects of different shapes:
  seven properties of \<open>cardData\<close> on one path, all twenty-three on the other, and so two
  different tokens.
\<close>

theorem share_paths_differ:
  "cardData_keys (simplifiedData (getDataForSharing sample_state)) =
     [js ''name'', js ''title'', js ''company'', js ''bio'', js ''contactInfo'',
      js ''socialLinks'', js ''careerHistory''] \<and>
   cardData_keys (dataToShare_value (getDataForSharing sample_state)) =
     [js ''bannerImage'', js ''profilePicture'', js ''name'', js ''title'', js ''company'',
      js ''bio'', js ''contactInfo'', js ''socialLinks'', js ''careerHistory'',
      js ''fontFamily'', js ''nameFontSize'', js ''nameFontWeight'', js ''nameFontColor'',
      js ''titleFontSize'', js ''titleFontWeight'', js ''titleFontColor'',
      js ''companyFontSize'', js ''companyFontWeight'', js ''companyFontColor'',
      js ''baseFontSize'', js ''baseFontWeight'', js ''baseFontColor'', js ''layout''] \<and>
   Encode sample_platform (simplifiedData (getDataForSharing sample_state)) =
     Inr simplified_token \<and>
   Encode sample_platform (dataToShare_value (getDataForSharing sample_state)) =
     Inr full_token \<and>
   simplified_token \<noteq> full_token"
  by (simp only: cardData_keys_simplified cardData_keys_full sample_sharing Encode_simplified
      Encode_full tokens_differ simp_thms)

end
